theory Spec2Isabelle
  imports Complex_Main "HOL-Library.Stream"
begin

section \<open>Conventions\<close>

text \<open>
  The repository holds three overlapping versions of one arena shooter:
  \<^item> the registry version: \<^verbatim>\<open>js/main.js\<close> (class Game, GameStateMachine),
    \<^verbatim>\<open>gameplay.js\<close> (Entity, Player, Assassin, Shooter, Tank, Weapon, Pistol,
    MachineGun, Projectile; the first document of \<^verbatim>\<open>unnamed/part_000\<close>) and
    \<^verbatim>\<open>js/core.js\<close> (Utils, CollisionSystem, InputManager);
  \<^item> the modular version: \<^verbatim>\<open>js/game.js\<close>, \<^verbatim>\<open>js/entities.js\<close>,
    \<^verbatim>\<open>js/gameState.js\<close>, \<^verbatim>\<open>js/utils.js\<close> and \<^verbatim>\<open>config.js\<close>;
  \<^item> the single-file version at the head of \<^verbatim>\<open>main.js\<close>.

  A JavaScript number is modelled as a real: the functions below are the source's
  arithmetic over the reals, without rounding, NaN or infinities. A counter that only
  ever holds whole numbers is a \<open>nat\<close> or an \<open>int\<close>. A method that mutates
  \<open>this\<close> takes the object and returns the new one; where it also returns a value
  the result is a tuple, the returned value first. Classes of the two versions share
  field names; a field is written with its record's name (\<open>player.speed\<close>,
  \<open>enemy.speed\<close>) wherever two records have it, and the records and functions of the
  modular version carry the prefix \<open>m_\<close>.

  \<open>Date.now()\<close> and \<open>Math.random()\<close> are the environment. A method that reads the
  clock once takes the reading as its argument \<open>now\<close>; the registry version, where the
  number of reads in a tick varies, threads an environment that holds the future
  readings as streams.
\<close>

datatype js_error = TypeError

section \<open>The modular version: utils.js, config.js, entities.js\<close>

definition normalizeVector :: "real \<Rightarrow> real \<Rightarrow> real \<times> real" where
  "normalizeVector vx0 vy0 =
     (let len = sqrt (vx0 * vx0 + vy0 * vy0)
      in if len = 0 then (0, 0) else (vx0 / len, vy0 / len))"

text \<open>The object made by \<open>createTimer\<close>, with its methods \<open>update\<close> and \<open>reset\<close>.\<close>

record m_timer =
  duration :: real
  elapsed :: real
  isComplete :: bool

definition createTimer :: "real \<Rightarrow> m_timer" where
  "createTimer d = \<lparr>duration = d, elapsed = 0, isComplete = False\<rparr>"

definition timer_update :: "real \<Rightarrow> m_timer \<Rightarrow> m_timer" where
  "timer_update dt t =
     (if \<not> isComplete t then
        (let t1 = t\<lparr>elapsed := elapsed t + dt\<rparr>
         in if elapsed t1 \<ge> duration t1
            then t1\<lparr>isComplete := True, elapsed := duration t1\<rparr> else t1)
      else t)"

definition timer_reset :: "m_timer \<Rightarrow> m_timer" where
  "timer_reset t = t\<lparr>elapsed := 0, isComplete := False\<rparr>"

text \<open>The constants of \<open>CONFIG\<close> that the entities read.\<close>

definition CONFIG_player_radius :: real where "CONFIG_player_radius = 20"
definition CONFIG_player_speed :: real where "CONFIG_player_speed = 300"
definition CONFIG_player_maxHealth :: real where "CONFIG_player_maxHealth = 3"
definition CONFIG_player_invulnerabilityDuration :: real where
  "CONFIG_player_invulnerabilityDuration = 800"
definition CONFIG_player_flashDuration :: real where "CONFIG_player_flashDuration = 100"
definition CONFIG_bullet_radius :: real where "CONFIG_bullet_radius = 4"
definition CONFIG_bullet_speed :: real where "CONFIG_bullet_speed = 600"
definition CONFIG_bullet_maxDistance :: real where "CONFIG_bullet_maxDistance = 1000"

text \<open>
  A weapon entry of \<open>Player.weapons\<close>: the fields of \<open>CONFIG.weapons.machineGun\<close>
  and \<open>lastFireTime\<close>. Its \<open>ammo\<close> is \<open>Infinity\<close> or a number.
\<close>

datatype m_ammo = Infinity | Rounds int

record m_weapon =
  name :: string
  fireRate :: real
  bulletSpeed :: real
  ammo :: m_ammo
  damage :: real
  lastFireTime :: real

definition CONFIG_weapons_machineGun :: "real \<Rightarrow> m_weapon" where
  "CONFIG_weapons_machineGun lft =
     \<lparr>name = ''Machine Gun'', fireRate = 500, bulletSpeed = 600, ammo = Infinity,
      damage = 1, lastFireTime = lft\<rparr>"

record m_entity =
  x :: real
  y :: real
  radius :: real
  health :: real
  maxHealth :: real
  active :: bool

definition m_Entity_takeDamage :: "real \<Rightarrow> 'a m_entity_scheme \<Rightarrow> 'a m_entity_scheme" where
  "m_Entity_takeDamage amount e =
     (let e1 = e\<lparr>health := health e - amount\<rparr>
      in if health e1 \<le> 0 then e1\<lparr>active := False\<rparr> else e1)"

record m_bullet = m_entity +
  dirX :: real
  dirY :: real
  speed :: real
  distanceTraveled :: real
  maxDistance :: real

definition m_Bullet_new :: "real \<Rightarrow> real \<Rightarrow> real \<Rightarrow> real \<Rightarrow> real \<Rightarrow> m_bullet" where
  "m_Bullet_new x0 y0 dx dy spd =
     \<lparr>x = x0, y = y0, radius = CONFIG_bullet_radius, health = 1, maxHealth = 1,
      active = True, dirX = dx, dirY = dy, speed = spd, distanceTraveled = 0,
      maxDistance = CONFIG_bullet_maxDistance\<rparr>"

text \<open>
  Class Player of entities.js, without the image it draws. \<open>weapons\<close> is an object
  indexed by the string \<open>currentWeapon\<close>.
\<close>

record m_player = m_entity +
  speed :: real
  currentWeapon :: string
  weapons :: "string \<rightharpoonup> m_weapon"
  invulnerable :: bool
  invulnerabilityTimer :: m_timer
  flashTimer :: m_timer
  isDamaged :: bool
  velocity :: "real \<times> real"

definition m_Player_new :: "real \<Rightarrow> real \<Rightarrow> m_player" where
  "m_Player_new x0 y0 =
     \<lparr>x = x0, y = y0, radius = CONFIG_player_radius, health = CONFIG_player_maxHealth,
      maxHealth = CONFIG_player_maxHealth, active = True,
      speed = CONFIG_player_speed, currentWeapon = ''machineGun'',
      weapons = [''machineGun'' \<mapsto> CONFIG_weapons_machineGun 0],
      invulnerable = False,
      invulnerabilityTimer = createTimer CONFIG_player_invulnerabilityDuration,
      flashTimer = createTimer CONFIG_player_flashDuration,
      isDamaged = False, velocity = (0, 0)\<rparr>"

text \<open>
  \<open>Player.tryFire(mouseX, mouseY)\<close> with \<open>now\<close> the value of its one
  \<open>Date.now()\<close>. It returns the bullet or \<open>null\<close>. Reading \<open>lastFireTime\<close> of a
  weapon that \<open>weapons\<close> does not hold throws a TypeError.
\<close>

definition m_Player_tryFire ::
  "real \<Rightarrow> real \<Rightarrow> real \<Rightarrow> m_player \<Rightarrow> js_error + (m_bullet option \<times> m_player)" where
  "m_Player_tryFire mouseX mouseY now p =
     (case m_player.weapons p (currentWeapon p) of
        None \<Rightarrow> Inl TypeError
      | Some weapon \<Rightarrow>
          if now - m_weapon.lastFireTime weapon < m_weapon.fireRate weapon then Inr (None, p)
          else if m_weapon.ammo weapon \<noteq> Infinity \<and>
                  (case m_weapon.ammo weapon of Rounds n \<Rightarrow> n \<le> 0 | Infinity \<Rightarrow> False)
          then Inr (None, p)
          else
            (let dx = mouseX - m_entity.x p;
                 dy = mouseY - m_entity.y p;
                 direction = normalizeVector dx dy;
                 bullet = m_Bullet_new
                            (m_entity.x p + fst direction * m_entity.radius p)
                            (m_entity.y p + snd direction * m_entity.radius p)
                            (fst direction) (snd direction) (bulletSpeed weapon);
                 weapon1 = weapon\<lparr>m_weapon.lastFireTime := now\<rparr>;
                 weapon2 = (case m_weapon.ammo weapon1 of
                              Infinity \<Rightarrow> weapon1
                            | Rounds n \<Rightarrow> weapon1\<lparr>m_weapon.ammo := Rounds (n - 1)\<rparr>)
             in Inr (Some bullet,
                     p\<lparr>m_player.weapons := (m_player.weapons p)(currentWeapon p \<mapsto> weapon2)\<rparr>)))"

definition m_Player_takeDamage :: "real \<Rightarrow> m_player \<Rightarrow> bool \<times> m_player" where
  "m_Player_takeDamage amount p =
     (if invulnerable p then (False, p)
      else (True, (m_Entity_takeDamage amount p)
                    \<lparr>invulnerable := True,
                     invulnerabilityTimer := timer_reset (invulnerabilityTimer p),
                     m_player.flashTimer := timer_reset (m_player.flashTimer p),
                     isDamaged := True\<rparr>))"

text \<open>
  A sequence of \<open>tryFire\<close> calls on one player, each with its clock reading and its
  aim; the result lists the readings of the calls that returned a bullet.
\<close>

fun m_fire_calls :: "m_player \<Rightarrow> (real \<times> real \<times> real) list \<Rightarrow> js_error + (real list \<times> m_player)" where
  "m_fire_calls p [] = Inr ([], p)"
| "m_fire_calls p ((now, mouseX, mouseY) # cs) =
     (case m_Player_tryFire mouseX mouseY now p of
        Inl err \<Rightarrow> Inl err
      | Inr (b, p1) \<Rightarrow>
          (case m_fire_calls p1 cs of
             Inl err \<Rightarrow> Inl err
           | Inr (ts, p2) \<Rightarrow> Inr (if b = None then ts else now # ts, p2)))"

subsection \<open>gameState.js: GameStateMachine\<close>

text \<open>
  The state machine of the modular version. Only PLAYING and GAME_OVER have a
  handler; \<open>enter\<close> of PlayingState and of GameOverState write the handler's own
  fields, \<open>exit\<close> only logs. \<open>data\<close> is the object passed to \<open>setState\<close>, a
  missing key being \<open>None\<close>, and \<open>now\<close> the reading of \<open>Date.now()\<close>.
\<close>

datatype m_GAME_STATES = M_BOOT | M_MENU | M_PLAYING | M_PAUSED | M_UPGRADE_PICK | M_GAME_OVER









section \<open>The registry version: the environment\<close>

record env =
  clock :: "real stream"
  random :: "real stream"

text \<open>\<open>Date.now()\<close>: milliseconds, the next reading of the clock.\<close>

definition Date_now :: "env \<Rightarrow> real \<times> env" where
  "Date_now ev = (shd (clock ev), ev\<lparr>clock := stl (clock ev)\<rparr>)"

text \<open>
  \<open>Math.random()\<close> returns a number in \<open>[0, 1)\<close>; an entry of the stream
  outside that interval is read as 0, so that the contract holds for every stream.
\<close>

definition Math_random :: "env \<Rightarrow> real \<times> env" where
  "Math_random ev =
     (let r = shd (random ev)
      in (if 0 \<le> r \<and> r < 1 then r else 0, ev\<lparr>random := stl (random ev)\<rparr>))"

text \<open>\<open>Math.atan2(y, x)\<close> on the reals.\<close>

definition Math_atan2 :: "real \<Rightarrow> real \<Rightarrow> real" where
  "Math_atan2 ay ax =
     (if ax > 0 then arctan (ay / ax)
      else if ax < 0 \<and> ay \<ge> 0 then arctan (ay / ax) + pi
      else if ax < 0 then arctan (ay / ax) - pi
      else if ay > 0 then pi / 2
      else if ay < 0 then - pi / 2
      else 0)"

section \<open>core.js: Utils and InputManager\<close>

definition COLLISION_EPSILON :: real where
  "COLLISION_EPSILON = 0.001"

definition Utils_clamp :: "real \<Rightarrow> real \<Rightarrow> real \<Rightarrow> real" where
  "Utils_clamp val lo hi = min (max val lo) hi"

definition Utils_distance :: "real \<Rightarrow> real \<Rightarrow> real \<Rightarrow> real \<Rightarrow> real" where
  "Utils_distance x1 y1 x2 y2 =
     (let dx = x2 - x1; dy = y2 - y1 in sqrt (dx * dx + dy * dy))"

definition Utils_normalize :: "real \<Rightarrow> real \<Rightarrow> real \<times> real" where
  "Utils_normalize vx0 vy0 =
     (let len = sqrt (vx0 * vx0 + vy0 * vy0)
      in if len = 0 then (0, 0) else (vx0 / len, vy0 / len))"

definition Utils_randomRange :: "real \<Rightarrow> real \<Rightarrow> env \<Rightarrow> real \<times> env" where
  "Utils_randomRange lo hi ev =
     (let (r, ev1) = Math_random ev in (r * (hi - lo) + lo, ev1))"

definition Utils_randomInt :: "int \<Rightarrow> int \<Rightarrow> env \<Rightarrow> int \<times> env" where
  "Utils_randomInt lo hi ev =
     (let (r, ev1) = Math_random ev
      in (\<lfloor>r * real_of_int (hi - lo + 1)\<rfloor> + lo, ev1))"

text \<open>
  The input providers. \<open>KeyboardMouseProvider\<close> holds the set of pressed actions
  and the set of pressed mouse buttons, which the DOM event handlers change between
  ticks; the gesture and voice providers are stubs. \<open>registerProvider\<close> links every
  provider to the manager, so the test \<open>!this.inputManager\<close> of a provider's
  \<open>update\<close> is false for the active one; no \<open>update\<close> throws, so the
  \<open>catch\<close> of \<open>InputManager.update\<close> is never entered.
\<close>

record keyboardMouse =
  keys :: "string set"
  mouseButtons :: "int set"

datatype provider = KeyboardMouseProvider keyboardMouse | GestureProvider | VoiceProvider

record inputManager =
  activeProvider :: "provider option"
  moveVector :: "real \<times> real"
  fire :: bool
  pickup :: bool
  switchWeapon :: bool
  lastWeaponSwitchTime :: real
  weaponSwitchCooldown :: real
  creatorMode :: bool
  lastCreatorModeToggleTime :: real
  creatorModeToggleCooldown :: real
  mouseX :: real
  mouseY :: real

definition InputManager_new :: inputManager where
  "InputManager_new =
     \<lparr>activeProvider = None, moveVector = (0, 0), fire = False, pickup = False,
      switchWeapon = False, lastWeaponSwitchTime = 0, weaponSwitchCooldown = 0.2,
      creatorMode = False, lastCreatorModeToggleTime = 0, creatorModeToggleCooldown = 0.2,
      mouseX = 0, mouseY = 0\<rparr>"

definition KeyboardMouseProvider_update :: "keyboardMouse \<Rightarrow> inputManager \<Rightarrow> inputManager" where
  "KeyboardMouseProvider_update km im =
     (let kx0 = 0;
          kx1 = (if ''left'' \<in> keys km then kx0 - 1 else kx0);
          kx2 = (if ''right'' \<in> keys km then kx1 + 1 else kx1);
          ky0 = 0;
          ky1 = (if ''up'' \<in> keys km then ky0 - 1 else ky0);
          ky2 = (if ''down'' \<in> keys km then ky1 + 1 else ky1);
          v = (if kx2 \<noteq> 0 \<and> ky2 \<noteq> 0
               then (let len = sqrt (kx2 * kx2 + ky2 * ky2) in (kx2 / len, ky2 / len))
               else (kx2, ky2))
      in im\<lparr>moveVector := v, fire := (0 \<in> mouseButtons km)\<rparr>)"

definition InputManager_update :: "real \<Rightarrow> inputManager \<Rightarrow> inputManager" where
  "InputManager_update deltaTime im =
     (case activeProvider im of
        None \<Rightarrow> im
      | Some (KeyboardMouseProvider km) \<Rightarrow> KeyboardMouseProvider_update km im
      | Some GestureProvider \<Rightarrow> im\<lparr>moveVector := (0, 0), fire := False\<rparr>
      | Some VoiceProvider \<Rightarrow> im\<lparr>moveVector := (0, 0), fire := False\<rparr>)"

definition clearWeaponSwitch :: "inputManager \<Rightarrow> env \<Rightarrow> inputManager \<times> env" where
  "clearWeaponSwitch im ev =
     (let (now, ev1) = Date_now ev
      in (im\<lparr>switchWeapon := False, lastWeaponSwitchTime := now / 1000\<rparr>, ev1))"

definition clearCreatorModeToggle :: "inputManager \<Rightarrow> env \<Rightarrow> inputManager \<times> env" where
  "clearCreatorModeToggle im ev =
     (let (now, ev1) = Date_now ev
      in (im\<lparr>inputManager.creatorMode := False, lastCreatorModeToggleTime := now / 1000\<rparr>, ev1))"

definition getMoveVector :: "inputManager \<Rightarrow> real \<times> real" where
  "getMoveVector im = moveVector im"

definition isFiring :: "inputManager \<Rightarrow> bool" where
  "isFiring im = fire im"

definition getWeaponSwitch :: "inputManager \<Rightarrow> bool" where
  "getWeaponSwitch im = switchWeapon im"

definition getCreatorModeToggle :: "inputManager \<Rightarrow> bool" where
  "getCreatorModeToggle im = inputManager.creatorMode im"

definition getMousePosition :: "inputManager \<Rightarrow> real \<times> real" where
  "getMousePosition im = (mouseX im, mouseY im)"

section \<open>gameplay.js\<close>

definition PLAYER_SPEED :: real where "PLAYER_SPEED = 220"
definition PLAYER_RADIUS :: real where "PLAYER_RADIUS = 16"
definition PLAYER_MAX_HP :: real where "PLAYER_MAX_HP = 3"
definition PLAYER_IFRAME_DURATION :: real where "PLAYER_IFRAME_DURATION = 0.8"
definition ASSASSIN_SPEED :: real where "ASSASSIN_SPEED = 150"
definition ASSASSIN_RADIUS :: real where "ASSASSIN_RADIUS = 15"
definition SHOOTER_SPEED :: real where "SHOOTER_SPEED = 120"
definition SHOOTER_RADIUS :: real where "SHOOTER_RADIUS = 20"
definition SHOOTER_MOVE_DURATION :: real where "SHOOTER_MOVE_DURATION = 2.0"
definition SHOOTER_FIRE_RATE :: real where "SHOOTER_FIRE_RATE = 2.0"
definition SHOOTER_SPREAD_ANGLE :: real where "SHOOTER_SPREAD_ANGLE = 4"
definition SHOOTER_BULLET_SPEED :: real where "SHOOTER_BULLET_SPEED = 400"
definition SHOOTER_BULLET_RADIUS :: real where "SHOOTER_BULLET_RADIUS = 4"
definition SHOOTER_BULLET_LIFETIME :: real where "SHOOTER_BULLET_LIFETIME = 2.5"
definition TANK_SPEED :: real where "TANK_SPEED = 120"
definition TANK_RADIUS :: real where "TANK_RADIUS = 25"
definition TANK_HP :: real where "TANK_HP = 3"
definition TANK_CONTACT_COOLDOWN :: real where "TANK_CONTACT_COOLDOWN = 0.7"
definition TANK_KNOCKBACK :: real where "TANK_KNOCKBACK = 8"
definition TANK_FLASH_DURATION :: real where "TANK_FLASH_DURATION = 0.1"
definition BULLET_SPEED :: real where "BULLET_SPEED = 600"
definition BULLET_RADIUS :: real where "BULLET_RADIUS = 3"
definition PISTOL_FIRE_RATE :: real where "PISTOL_FIRE_RATE = 1.0"
definition MACHINE_GUN_FIRE_RATE :: real where "MACHINE_GUN_FIRE_RATE = 0.5"
definition MACHINE_GUN_AMMO :: int where "MACHINE_GUN_AMMO = 50"

record bounds =
  width :: real
  height :: real

subsection \<open>Entity\<close>

text \<open>
  The subclasses of Entity are record extensions, so that a method of Entity is one
  function on every extension, as the inherited method is.
\<close>

record entity =
  x :: real
  y :: real
  radius :: real
  vx :: real
  vy :: real
  hp :: real
  maxHp :: real
  alive :: bool

definition Entity_update :: "real \<Rightarrow> 'a entity_scheme \<Rightarrow> 'a entity_scheme" where
  "Entity_update deltaTime e =
     e\<lparr>x := x e + vx e * deltaTime, y := y e + vy e * deltaTime\<rparr>"

definition Entity_takeDamage :: "real \<Rightarrow> 'a entity_scheme \<Rightarrow> 'a entity_scheme" where
  "Entity_takeDamage dmg e =
     (let e1 = e\<lparr>hp := hp e - dmg\<rparr>
      in if hp e1 \<le> 0 then e1\<lparr>alive := False\<rparr> else e1)"

definition isAlive :: "'a entity_scheme \<Rightarrow> bool" where
  "isAlive e = alive e"

text \<open>
  \<open>CollisionSystem.checkCircleCollision\<close> of core.js reads \<open>x\<close>, \<open>y\<close> and
  \<open>radius\<close> of two objects, whatever their classes.
\<close>

definition checkCircleCollision :: "'a entity_scheme \<Rightarrow> 'b entity_scheme \<Rightarrow> bool" where
  "checkCircleCollision obj1 obj2 =
     (let dx = x obj2 - x obj1;
          dy = y obj2 - y obj1;
          distance = sqrt (dx * dx + dy * dy);
          minDistance = radius obj1 + radius obj2
      in distance < minDistance + COLLISION_EPSILON)"

subsection \<open>Projectile and ShooterBullet\<close>

text \<open>
  \<open>owner\<close> is the string \<open>'player'\<close> for a weapon's projectile and the
  Shooter object for a ShooterBullet; the collision pass also tests it against
  \<open>null\<close>. A ShooterBullet is a Projectile with another \<open>lifetime\<close>.
\<close>

datatype proj_owner = owner_player | owner_shooter | owner_null

record projectile = entity +
  damage :: real
  color :: string
  owner :: proj_owner
  lifetime :: real
  age :: real

definition Projectile_new ::
  "real \<Rightarrow> real \<Rightarrow> real \<Rightarrow> real \<Rightarrow> real \<Rightarrow> real \<Rightarrow> string \<Rightarrow> proj_owner \<Rightarrow> projectile" where
  "Projectile_new x0 y0 vx0 vy0 r0 dmg col own =
     \<lparr>x = x0, y = y0, radius = r0, vx = vx0, vy = vy0, hp = 1, maxHp = 1, alive = True,
      damage = dmg, color = col, owner = own, lifetime = 3.0, age = 0\<rparr>"

definition ShooterBullet_new ::
  "real \<Rightarrow> real \<Rightarrow> real \<Rightarrow> real \<Rightarrow> real \<Rightarrow> real \<Rightarrow> string \<Rightarrow> proj_owner \<Rightarrow> projectile" where
  "ShooterBullet_new x0 y0 vx0 vy0 r0 dmg col own =
     (Projectile_new x0 y0 vx0 vy0 r0 dmg col own)\<lparr>lifetime := SHOOTER_BULLET_LIFETIME\<rparr>"

definition Projectile_update :: "real \<Rightarrow> bounds \<Rightarrow> projectile \<Rightarrow> projectile" where
  "Projectile_update deltaTime bnds pr =
     (let pr1 = Entity_update deltaTime pr;
          pr2 = pr1\<lparr>age := age pr1 + deltaTime\<rparr>
      in if age pr2 \<ge> lifetime pr2 \<or>
            x pr2 < - radius pr2 \<or> x pr2 > width bnds + radius pr2 \<or>
            y pr2 < - radius pr2 \<or> y pr2 > height bnds + radius pr2
         then pr2\<lparr>alive := False\<rparr> else pr2)"

subsection \<open>Weapon, Pistol, MachineGun\<close>

text \<open>
  One record for the three classes; \<open>wclass\<close> is the constructor the object was
  made with and selects the overridden methods. The field \<open>owner\<close> of a weapon, which
  \<open>Player.setWeapon\<close> assigns and nothing reads, is left out.
\<close>

datatype weapon_class = Pistol | MachineGun

record weapon =
  fireRate :: real
  ammo :: int
  currentAmmo :: int
  lastFireTime :: real
  wclass :: weapon_class

definition Weapon_new :: "real \<Rightarrow> int \<Rightarrow> weapon_class \<Rightarrow> weapon" where
  "Weapon_new fr am c =
     \<lparr>fireRate = fr, ammo = am, currentAmmo = am, lastFireTime = 0, wclass = c\<rparr>"

definition Pistol_new :: weapon where
  "Pistol_new = Weapon_new PISTOL_FIRE_RATE (- 1) Pistol"

definition MachineGun_new :: weapon where
  "MachineGun_new = Weapon_new MACHINE_GUN_FIRE_RATE MACHINE_GUN_AMMO MachineGun"

definition Weapon_canFire :: "weapon \<Rightarrow> env \<Rightarrow> bool \<times> env" where
  "Weapon_canFire w ev =
     (let (ms, ev1) = Date_now ev;
          now = ms / 1000;
          timeSinceLastFire = now - weapon.lastFireTime w
      in (timeSinceLastFire \<ge> weapon.fireRate w \<and>
          (weapon.ammo w = - 1 \<or> currentAmmo w > 0), ev1))"

definition MachineGun_canFire :: "weapon \<Rightarrow> env \<Rightarrow> bool \<times> env" where
  "MachineGun_canFire w ev =
     (let (ms, ev1) = Date_now ev;
          now = ms / 1000;
          canFireByTime = (now - weapon.lastFireTime w \<ge> weapon.fireRate w);
          hasAmmo = (currentAmmo w > 0)
      in (canFireByTime \<and> hasAmmo, ev1))"

definition canFire :: "weapon \<Rightarrow> env \<Rightarrow> bool \<times> env" where
  "canFire w ev =
     (case wclass w of Pistol \<Rightarrow> Weapon_canFire w ev | MachineGun \<Rightarrow> MachineGun_canFire w ev)"

definition Pistol_createProjectile :: "real \<Rightarrow> real \<Rightarrow> real \<Rightarrow> real \<Rightarrow> projectile option" where
  "Pistol_createProjectile fromX fromY targetX targetY =
     (let dx = targetX - fromX;
          dy = targetY - fromY;
          distance = sqrt (dx * dx + dy * dy)
      in if distance = 0 then None
         else (let normalized = Utils_normalize dx dy
               in Some (Projectile_new fromX fromY
                          (fst normalized * BULLET_SPEED) (snd normalized * BULLET_SPEED)
                          BULLET_RADIUS 1 ''#FFFF00'' owner_player)))"

definition MachineGun_createProjectile :: "real \<Rightarrow> real \<Rightarrow> real \<Rightarrow> real \<Rightarrow> projectile option" where
  "MachineGun_createProjectile fromX fromY targetX targetY =
     (let dx = targetX - fromX;
          dy = targetY - fromY;
          distance = sqrt (dx * dx + dy * dy)
      in if distance = 0 then None
         else (let bvx = (dx / distance) * BULLET_SPEED;
                   bvy = (dy / distance) * BULLET_SPEED
               in Some (Projectile_new fromX fromY bvx bvy
                          BULLET_RADIUS 1 ''#4A90E2'' owner_player)))"

definition createProjectile ::
  "weapon \<Rightarrow> real \<Rightarrow> real \<Rightarrow> real \<Rightarrow> real \<Rightarrow> projectile option" where
  "createProjectile w fromX fromY targetX targetY =
     (case wclass w of
        Pistol \<Rightarrow> Pistol_createProjectile fromX fromY targetX targetY
      | MachineGun \<Rightarrow> MachineGun_createProjectile fromX fromY targetX targetY)"

text \<open>
  \<open>Weapon.fire\<close> returns a boolean, pushes the projectile on the list it is given
  and reads the clock twice: once in \<open>canFire\<close>, once for \<open>lastFireTime\<close>.
\<close>

definition Weapon_fire ::
  "real \<Rightarrow> real \<Rightarrow> real \<Rightarrow> real \<Rightarrow> weapon \<Rightarrow> projectile list \<Rightarrow> env
     \<Rightarrow> bool \<times> weapon \<times> projectile list \<times> env" where
  "Weapon_fire fromX fromY targetX targetY w prs ev =
     (let (ok, ev1) = canFire w ev
      in if \<not> ok then (False, w, prs, ev1)
         else (case createProjectile w fromX fromY targetX targetY of
                 None \<Rightarrow> (False, w, prs, ev1)
               | Some pr \<Rightarrow>
                   (let (ms, ev2) = Date_now ev1;
                        w1 = w\<lparr>weapon.lastFireTime := ms / 1000\<rparr>;
                        w2 = (if weapon.ammo w1 > 0
                              then w1\<lparr>currentAmmo := currentAmmo w1 - 1\<rparr> else w1)
                    in (True, w2, prs @ [pr], ev2))))"

subsection \<open>Player\<close>

record anim =
  frames :: nat
  frame :: nat
  timer :: real
  frameDuration :: real
  idleFrame :: nat

text \<open>
  The two weapon objects live in \<open>Game.weapons\<close>; \<open>Player.weapon\<close> refers to one
  of them, and the reference is its key (\<open>None\<close> is \<open>null\<close>). The field
  \<open>creatorMode\<close> does not exist until \<open>Game.updatePlaying\<close> assigns it, and an
  absent field reads as false.
\<close>

datatype weapon_key = pistol | machine_gun

record player = entity +
  speed :: real
  iframeTimer :: real
  flashTimer :: real
  weapon :: "weapon_key option"
  anim :: anim
  isMoving :: bool
  prevX :: real
  prevY :: real
  creatorMode :: bool

definition Player_new :: "real \<Rightarrow> real \<Rightarrow> player" where
  "Player_new x0 y0 =
     \<lparr>x = x0, y = y0, radius = PLAYER_RADIUS, vx = 0, vy = 0,
      hp = PLAYER_MAX_HP, maxHp = PLAYER_MAX_HP, alive = True,
      speed = PLAYER_SPEED, iframeTimer = 0, flashTimer = 0, weapon = None,
      anim = \<lparr>frames = 6, frame = 0, timer = 0, frameDuration = 0.03, idleFrame = 0\<rparr>,
      isMoving = False, prevX = x0, prevY = y0, creatorMode = False\<rparr>"

definition Player_update :: "real \<Rightarrow> inputManager \<Rightarrow> bounds \<Rightarrow> player \<Rightarrow> player" where
  "Player_update deltaTime im bnds p =
     (let mv = getMoveVector im;
          p1 = p\<lparr>vx := fst mv * player.speed p, vy := snd mv * player.speed p\<rparr>;
          newX = Utils_clamp (x p1 + vx p1 * deltaTime) (radius p1) (width bnds - radius p1);
          newY = Utils_clamp (y p1 + vy p1 * deltaTime) (radius p1) (height bnds - radius p1);
          p2 = p1\<lparr>x := newX, y := newY\<rparr>;
          p3 = (if iframeTimer p2 > 0
                then p2\<lparr>iframeTimer := iframeTimer p2 - deltaTime\<rparr> else p2);
          p4 = (if player.flashTimer p3 > 0
                then p3\<lparr>player.flashTimer := player.flashTimer p3 - deltaTime\<rparr> else p3);
          \<comment> \<open>\<open>this.weapon.update(deltaTime)\<close>: the method has no body in any weapon class\<close>
          movedDist = \<bar>x p4 - prevX p4\<bar> + \<bar>y p4 - prevY p4\<bar>;
          p5 = p4\<lparr>player.isMoving := (movedDist > 0.1)\<rparr>;
          a = anim p5;
          a1 = (if player.isMoving p5 then
                  (let a2 = a\<lparr>timer := timer a + deltaTime\<rparr>
                   in if timer a2 \<ge> frameDuration a2
                      then a2\<lparr>timer := 0, frame := (frame a2 + 1) mod frames a2\<rparr> else a2)
                else a\<lparr>frame := idleFrame a, timer := 0\<rparr>);
          p6 = p5\<lparr>anim := a1\<rparr>
      in p6\<lparr>prevX := x p6, prevY := y p6\<rparr>)"

text \<open>\<open>Player.takeDamage\<close> returns a boolean and mutates the player.\<close>

definition Player_takeDamage :: "real \<Rightarrow> player \<Rightarrow> bool \<times> player" where
  "Player_takeDamage dmg p =
     (if iframeTimer p > 0 then (False, p)
      else if player.creatorMode p then
        (True, p\<lparr>iframeTimer := PLAYER_IFRAME_DURATION, player.flashTimer := 0.1\<rparr>)
      else
        (True, (Entity_takeDamage dmg p)
                 \<lparr>iframeTimer := PLAYER_IFRAME_DURATION, player.flashTimer := 0.1\<rparr>))"

definition canTakeDamage :: "player \<Rightarrow> bool" where
  "canTakeDamage p = (iframeTimer p \<le> 0)"

definition setWeapon :: "weapon_key option \<Rightarrow> player \<Rightarrow> player" where
  "setWeapon k p = p\<lparr>weapon := k\<rparr>"

text \<open>
  \<open>Player.fire\<close> delegates to the weapon it refers to; the weapon objects are
  passed and returned as the store \<open>ws\<close>.
\<close>

definition Player_fire ::
  "real \<Rightarrow> real \<Rightarrow> player \<Rightarrow> (weapon_key \<Rightarrow> weapon) \<Rightarrow> projectile list \<Rightarrow> env
     \<Rightarrow> bool \<times> (weapon_key \<Rightarrow> weapon) \<times> projectile list \<times> env" where
  "Player_fire targetX targetY p ws prs ev =
     (case weapon p of
        Some k \<Rightarrow>
          (let (ok, w1, prs1, ev1) = Weapon_fire (x p) (y p) targetX targetY (ws k) prs ev
           in (ok, ws(k := w1), prs1, ev1))
      | None \<Rightarrow> (False, ws, prs, ev))"

subsection \<open>Enemy, Assassin, Shooter, Tank\<close>

text \<open>
  One record for the enemy classes: the fields of Enemy, the \<open>speed\<close> that each
  subclass constructor sets, and \<open>cls\<close>, the subclass with the fields it adds.
\<close>

record shooter_state =
  moveTimer :: real
  fireTimer :: real
  isMoving :: bool
  centerX :: real
  centerY :: real

record tank_state =
  contactCooldown :: real
  flashTimer :: real
  isFlashing :: bool
  lastContactTime :: real

datatype enemy_class = Assassin | Shooter shooter_state | Tank tank_state

record enemy = entity +
  damage :: real
  color :: string
  speed :: real
  cls :: enemy_class

definition Assassin_new :: "real \<Rightarrow> real \<Rightarrow> enemy" where
  "Assassin_new x0 y0 =
     \<lparr>x = x0, y = y0, radius = ASSASSIN_RADIUS, vx = 0, vy = 0, hp = 1, maxHp = 1,
      alive = True, damage = 1, color = ''#FF0000'', speed = ASSASSIN_SPEED, cls = Assassin\<rparr>"

definition Shooter_new :: "real \<Rightarrow> real \<Rightarrow> enemy" where
  "Shooter_new x0 y0 =
     \<lparr>x = x0, y = y0, radius = SHOOTER_RADIUS, vx = 0, vy = 0, hp = 1, maxHp = 1,
      alive = True, damage = 1, color = ''#FF0000'', speed = SHOOTER_SPEED,
      cls = Shooter \<lparr>moveTimer = 0, fireTimer = 0, isMoving = True, centerX = 0, centerY = 0\<rparr>\<rparr>"

definition Tank_new :: "real \<Rightarrow> real \<Rightarrow> enemy" where
  "Tank_new x0 y0 =
     \<lparr>x = x0, y = y0, radius = TANK_RADIUS, vx = 0, vy = 0, hp = TANK_HP, maxHp = TANK_HP,
      alive = True, damage = 1, color = ''#FF0000'', speed = TANK_SPEED,
      cls = Tank \<lparr>contactCooldown = 0, flashTimer = 0, isFlashing = False,
                  lastContactTime = 0\<rparr>\<rparr>"

text \<open>\<open>Enemy.update\<close>, the \<open>super.update\<close> of the three subclasses.\<close>

definition Enemy_update :: "real \<Rightarrow> enemy \<Rightarrow> enemy" where
  "Enemy_update deltaTime e = Entity_update deltaTime e"

definition clampToArena :: "bounds \<Rightarrow> enemy \<Rightarrow> enemy" where
  "clampToArena bnds e =
     (let e1 = e\<lparr>x := Utils_clamp (x e) (radius e) (width bnds - radius e)\<rparr>
      in e1\<lparr>y := Utils_clamp (y e1) (radius e1) (height bnds - radius e1)\<rparr>)"

definition Assassin_update :: "real \<Rightarrow> player \<Rightarrow> bounds \<Rightarrow> enemy \<Rightarrow> enemy" where
  "Assassin_update deltaTime p bnds e =
     (if \<not> isAlive p then e
      else
        (let dx = x p - x e;
             dy = y p - y e;
             distance = Utils_distance (x e) (y e) (x p) (y p);
             e1 = (if distance > 0
                   then e\<lparr>vx := (dx / distance) * enemy.speed e,
                          vy := (dy / distance) * enemy.speed e\<rparr>
                   else e);
             e2 = Enemy_update deltaTime e1
         in clampToArena bnds e2))"

definition fireAtPlayer :: "player \<Rightarrow> enemy \<Rightarrow> projectile list \<Rightarrow> env \<Rightarrow> projectile list \<times> env" where
  "fireAtPlayer p e prs ev =
     (let dx = x p - x e;
          dy = y p - y e;
          baseAngle = Math_atan2 dy dx;
          spreadRadians = SHOOTER_SPREAD_ANGLE * pi / 180;
          (r, ev1) = Math_random ev;
          randomSpread = (r - 0.5) * 2 * spreadRadians;
          finalAngle = baseAngle + randomSpread;
          bulletVx = cos finalAngle * SHOOTER_BULLET_SPEED;
          bulletVy = sin finalAngle * SHOOTER_BULLET_SPEED;
          bullet = ShooterBullet_new (x e) (y e) bulletVx bulletVy SHOOTER_BULLET_RADIUS 1
                     ''#FF3B30'' owner_shooter
      in (prs @ [bullet], ev1))"

definition Shooter_update ::
  "real \<Rightarrow> player \<Rightarrow> bounds \<Rightarrow> shooter_state \<Rightarrow> enemy \<Rightarrow> projectile list \<Rightarrow> env
     \<Rightarrow> enemy \<times> projectile list \<times> env" where
  "Shooter_update deltaTime p bnds st e prs ev =
     (if \<not> isAlive p then (e, prs, ev)
      else
        (let st1 = (if centerX st = 0 \<and> centerY st = 0
                    then st\<lparr>centerX := width bnds / 2, centerY := height bnds / 2\<rparr> else st);
             st2 = st1\<lparr>moveTimer := moveTimer st1 + deltaTime\<rparr>;
             st3 = st2\<lparr>fireTimer := fireTimer st2 + deltaTime\<rparr>;
             (e1, st4) =
               (if shooter_state.isMoving st3 \<and> moveTimer st3 < SHOOTER_MOVE_DURATION then
                  (let dx = centerX st3 - x e;
                       dy = centerY st3 - y e;
                       distance = Utils_distance (x e) (y e) (centerX st3) (centerY st3)
                   in if distance > 5 then
                        (let normalized = Utils_normalize dx dy
                         in (e\<lparr>vx := fst normalized * enemy.speed e,
                                vy := snd normalized * enemy.speed e\<rparr>, st3))
                      else (e\<lparr>vx := 0, vy := 0\<rparr>, st3\<lparr>shooter_state.isMoving := False\<rparr>))
                else (e\<lparr>vx := 0, vy := 0\<rparr>, st3\<lparr>shooter_state.isMoving := False\<rparr>));
             (prs1, ev1, st5) =
               (if fireTimer st4 \<ge> SHOOTER_FIRE_RATE then
                  (let (prs2, ev2) = fireAtPlayer p e1 prs ev
                   in (prs2, ev2, st4\<lparr>fireTimer := 0\<rparr>))
                else (prs, ev, st4));
             e2 = Enemy_update deltaTime e1;
             e3 = clampToArena bnds e2
         in (e3\<lparr>cls := Shooter st5\<rparr>, prs1, ev1)))"

definition dealContactDamage :: "player \<Rightarrow> tank_state \<Rightarrow> enemy \<Rightarrow> tank_state \<times> player" where
  "dealContactDamage p st e =
     (let p1 = snd (Player_takeDamage 1 p);
          st1 = st\<lparr>contactCooldown := TANK_CONTACT_COOLDOWN\<rparr>;
          dx = x p1 - x e;
          dy = y p1 - y e;
          distance = Utils_distance (x e) (y e) (x p1) (y p1)
      in if distance > 0 then
           (let normalized = Utils_normalize dx dy;
                p2 = p1\<lparr>x := x p1 + fst normalized * TANK_KNOCKBACK\<rparr>;
                p3 = p2\<lparr>y := y p2 + snd normalized * TANK_KNOCKBACK\<rparr>
            in (st1, p3))
         else (st1, p1))"

text \<open>
  \<open>Tank.update\<close> in its three blocks: the two timers, the pursuit of the player
  (velocity, \<open>super.update\<close>, the clamp to the arena), and the contact damage.
\<close>

definition Tank_timers :: "real \<Rightarrow> tank_state \<Rightarrow> tank_state" where
  "Tank_timers deltaTime st =
     (let st1 = st\<lparr>contactCooldown := contactCooldown st - deltaTime\<rparr>;
          st2 = st1\<lparr>tank_state.flashTimer := tank_state.flashTimer st1 - deltaTime\<rparr>
      in if tank_state.flashTimer st2 \<le> 0 then st2\<lparr>isFlashing := False\<rparr> else st2)"

definition Tank_pursue :: "real \<Rightarrow> player \<Rightarrow> bounds \<Rightarrow> enemy \<Rightarrow> enemy" where
  "Tank_pursue deltaTime p bnds e =
     (let dx = x p - x e;
          dy = y p - y e;
          distance = Utils_distance (x e) (y e) (x p) (y p);
          e1 = (if distance > 0 then
                  (let normalized = Utils_normalize dx dy
                   in e\<lparr>vx := fst normalized * enemy.speed e,
                         vy := snd normalized * enemy.speed e\<rparr>)
                else e\<lparr>vx := 0, vy := 0\<rparr>);
          e2 = Enemy_update deltaTime e1
      in clampToArena bnds e2)"

definition Tank_update ::
  "real \<Rightarrow> player \<Rightarrow> bounds \<Rightarrow> tank_state \<Rightarrow> enemy \<Rightarrow> enemy \<times> player" where
  "Tank_update deltaTime p bnds st e =
     (if \<not> isAlive p then (e, p)
      else
        (let st3 = Tank_timers deltaTime st;
             e3 = Tank_pursue deltaTime p bnds e;
             (st4, p1) =
               (if contactCooldown st3 \<le> 0 \<and> canTakeDamage p then
                  (let playerDistance = Utils_distance (x e3) (y e3) (x p) (y p)
                   in if playerDistance < radius e3 + radius p
                      then dealContactDamage p st3 e3 else (st3, p))
                else (st3, p))
         in (e3\<lparr>cls := Tank st4\<rparr>, p1)))"

definition Tank_takeDamage :: "real \<Rightarrow> tank_state \<Rightarrow> enemy \<Rightarrow> enemy" where
  "Tank_takeDamage dmg st e =
     (Entity_takeDamage dmg e)
       \<lparr>cls := Tank (st\<lparr>isFlashing := True, tank_state.flashTimer := TANK_FLASH_DURATION\<rparr>)\<rparr>"

text \<open>The method calls \<open>enemy.takeDamage\<close> and \<open>enemy.update\<close>, by the class.\<close>

definition enemy_takeDamage :: "real \<Rightarrow> enemy \<Rightarrow> enemy" where
  "enemy_takeDamage dmg e =
     (case cls e of
        Tank st \<Rightarrow> Tank_takeDamage dmg st e
      | _ \<Rightarrow> Entity_takeDamage dmg e)"

definition enemy_update ::
  "real \<Rightarrow> bounds \<Rightarrow> enemy \<Rightarrow> player \<Rightarrow> projectile list \<Rightarrow> env
     \<Rightarrow> enemy \<times> player \<times> projectile list \<times> env" where
  "enemy_update deltaTime bnds e p prs ev =
     (case cls e of
        Assassin \<Rightarrow> (Assassin_update deltaTime p bnds e, p, prs, ev)
      | Shooter st \<Rightarrow>
          (let (e1, prs1, ev1) = Shooter_update deltaTime p bnds st e prs ev
           in (e1, p, prs1, ev1))
      | Tank st \<Rightarrow>
          (let (e1, p1) = Tank_update deltaTime p bnds st e in (e1, p1, prs, ev)))"

definition ENEMY_REGISTRY :: "string \<rightharpoonup> (real \<Rightarrow> real \<Rightarrow> enemy)" where
  "ENEMY_REGISTRY =
     [''assassin'' \<mapsto> Assassin_new, ''shooter'' \<mapsto> Shooter_new, ''tank'' \<mapsto> Tank_new]"

definition WEAPON_REGISTRY :: "weapon_key \<Rightarrow> weapon" where
  "WEAPON_REGISTRY k = (case k of pistol \<Rightarrow> Pistol_new | machine_gun \<Rightarrow> MachineGun_new)"

section \<open>js/main.js: GameStateMachine and Game\<close>

definition ARENA_WIDTH :: real where "ARENA_WIDTH = 1200"
definition ARENA_HEIGHT :: real where "ARENA_HEIGHT = 800"
definition ENEMY_SPAWN_INTERVAL :: real where "ENEMY_SPAWN_INTERVAL = 2.0"
definition SPAWN_SAFETY_DISTANCE :: real where "SPAWN_SAFETY_DISTANCE = 150"

datatype GAME_STATES = BOOT | MENU | PLAYING | PAUSED | UPGRADE_PICK | GAME_OVER

text \<open>
  The state machine owns an EventBus on which nothing ever registers a listener;
  \<open>emitted\<close> is the list of the \<open>stateChanged\<close> events it was given, each with its
  \<open>from\<close> and \<open>to\<close>.
\<close>

record stateMachine =
  currentState :: GAME_STATES
  previousState :: "GAME_STATES option"
  emitted :: "(GAME_STATES option \<times> GAME_STATES) list"

definition GameStateMachine_new :: stateMachine where
  "GameStateMachine_new = \<lparr>currentState = BOOT, previousState = None, emitted = []\<rparr>"

definition setState :: "GAME_STATES \<Rightarrow> stateMachine \<Rightarrow> stateMachine" where
  "setState newState sm =
     (if currentState sm = newState then sm
      else
        (let sm1 = sm\<lparr>previousState := Some (currentState sm)\<rparr>;
             sm2 = sm1\<lparr>currentState := newState\<rparr>
         in sm2\<lparr>emitted := emitted sm2 @ [(previousState sm2, newState)]\<rparr>))"

definition getState :: "stateMachine \<Rightarrow> GAME_STATES" where
  "getState sm = currentState sm"

definition isState :: "GAME_STATES \<Rightarrow> stateMachine \<Rightarrow> bool" where
  "isState st sm = (currentState sm = st)"

text \<open>
  The game, after \<open>init\<close>: the canvas, the image loader, the frame timing and the
  HUD elements belong to the page. \<open>hud\<close> lists the one-off calls made to the page
  (a toast, the game-over screen and its score); \<open>updateHUD\<close> copies health and ammo
  to the page on every tick and changes nothing of the game.
  \<open>originalPistolFireRate\<close> is absent until creator mode is first applied.
\<close>

datatype hud_call =
    showToast string
  | gameOverScreen_show
  | gameOverScreen_hide
  | finalScore_set nat

record game =
  stateMachine :: stateMachine
  inputManager :: inputManager
  player :: player
  enemies :: "enemy list"
  projectiles :: "projectile list"
  killCount :: nat
  enemySpawnTimer :: real
  creatorMode :: bool
  weapons :: "weapon_key \<Rightarrow> weapon"
  currentWeaponKey :: weapon_key
  originalPistolFireRate :: "real option"
  hud :: "hud_call list"

definition Game_showToast :: "string \<Rightarrow> game \<Rightarrow> game" where
  "Game_showToast message g = g\<lparr>hud := hud g @ [showToast message]\<rparr>"

definition initGameObjects :: "game \<Rightarrow> game" where
  "initGameObjects g =
     (let g1 = g\<lparr>player := Player_new (ARENA_WIDTH / 2) (ARENA_HEIGHT / 2)\<rparr>;
          g2 = g1\<lparr>weapons := WEAPON_REGISTRY\<rparr>;
          g3 = g2\<lparr>currentWeaponKey := pistol\<rparr>;
          g4 = g3\<lparr>player := setWeapon (Some (currentWeaponKey g3)) (player g3)\<rparr>
      in g4\<lparr>enemies := [], projectiles := [], killCount := 0, enemySpawnTimer := 0\<rparr>)"

text \<open>
  The state that \<open>new Game()\<close> followed by \<open>init()\<close> leaves, with the
  keyboard-and-mouse provider active and nothing pressed.
\<close>

definition Game_init :: game where
  "Game_init =
     (let g0 = \<lparr>stateMachine = GameStateMachine_new,
                inputManager = InputManager_new
                  \<lparr>activeProvider := Some (KeyboardMouseProvider \<lparr>keys = {}, mouseButtons = {}\<rparr>)\<rparr>,
                player = Player_new (ARENA_WIDTH / 2) (ARENA_HEIGHT / 2),
                enemies = [], projectiles = [], killCount = 0, enemySpawnTimer = 0,
                creatorMode = False, weapons = WEAPON_REGISTRY, currentWeaponKey = pistol,
                originalPistolFireRate = None, hud = []\<rparr>;
          g1 = initGameObjects g0
      in g1\<lparr>stateMachine := setState PLAYING (stateMachine g1)\<rparr>)"

definition restart :: "game \<Rightarrow> game" where
  "restart g =
     (let g1 = initGameObjects g;
          g2 = g1\<lparr>stateMachine := setState PLAYING (stateMachine g1)\<rparr>
      in g2\<lparr>hud := hud g2 @ [gameOverScreen_hide]\<rparr>)"

definition toggleWeapon :: "game \<Rightarrow> game" where
  "toggleWeapon g =
     (let g1 = g\<lparr>currentWeaponKey :=
                   (if currentWeaponKey g = pistol then machine_gun else pistol)\<rparr>;
          g2 = g1\<lparr>player := setWeapon (Some (currentWeaponKey g1)) (player g1)\<rparr>;
          weaponName = (if currentWeaponKey g2 = pistol then ''Pistol'' else ''Machine Gun'')
      in Game_showToast (''Switched to '' @ weaponName) g2)"

text \<open>A falsy \<open>originalPistolFireRate\<close> is an absent one or 0.\<close>

definition applyCreatorModeModifications :: "game \<Rightarrow> game" where
  "applyCreatorModeModifications g =
     (let orig = (case originalPistolFireRate g of
                    None \<Rightarrow> weapon.fireRate (weapons g pistol)
                  | Some r \<Rightarrow> if r = 0 then weapon.fireRate (weapons g pistol) else r);
          g1 = g\<lparr>originalPistolFireRate := Some orig\<rparr>
      in g1\<lparr>weapons := (weapons g1)(pistol := (weapons g1 pistol)\<lparr>weapon.fireRate := orig / 5\<rparr>)\<rparr>)"

definition revertCreatorModeModifications :: "game \<Rightarrow> game" where
  "revertCreatorModeModifications g =
     (case originalPistolFireRate g of
        None \<Rightarrow> g
      | Some r \<Rightarrow>
          if r = 0 then g
          else g\<lparr>weapons := (weapons g)(pistol := (weapons g pistol)\<lparr>weapon.fireRate := r\<rparr>)\<rparr>)"

definition toggleCreatorMode :: "game \<Rightarrow> game" where
  "toggleCreatorMode g =
     (let g1 = g\<lparr>game.creatorMode := \<not> game.creatorMode g\<rparr>
      in if game.creatorMode g1 then applyCreatorModeModifications g1
         else revertCreatorModeModifications g1)"

text \<open>
  \<open>spawnEnemy\<close>. \<open>Utils.randomInt(0, 3)\<close> is one of 0, 1, 2, 3, so the last
  case of each \<open>switch\<close> is the remaining one.
\<close>

definition edgePoint :: "int \<Rightarrow> env \<Rightarrow> real \<times> real \<times> env" where
  "edgePoint edge ev =
     (let margin = 50
      in if edge = 0 then
           (let (r, ev1) = Utils_randomRange margin (ARENA_WIDTH - margin) ev
            in (r, - margin, ev1))
         else if edge = 1 then
           (let (r, ev1) = Utils_randomRange margin (ARENA_HEIGHT - margin) ev
            in (ARENA_WIDTH + margin, r, ev1))
         else if edge = 2 then
           (let (r, ev1) = Utils_randomRange margin (ARENA_WIDTH - margin) ev
            in (r, ARENA_HEIGHT + margin, ev1))
         else
           (let (r, ev1) = Utils_randomRange margin (ARENA_HEIGHT - margin) ev
            in (- margin, r, ev1)))"

definition enemyTypes :: "string list" where
  "enemyTypes = [''assassin'', ''shooter'', ''tank'']"

definition spawnEnemy :: "game \<Rightarrow> env \<Rightarrow> game \<times> env" where
  "spawnEnemy g ev =
     (let (i, ev1) = Utils_randomInt 0 (int (length enemyTypes) - 1) ev;
          enemyType = (if 0 \<le> i \<and> i < int (length enemyTypes)
                       then Some (enemyTypes ! nat i) else None);
          (edge, ev2) = Utils_randomInt 0 3 ev1;
          (ex, ey, ev3) = edgePoint edge ev2;
          (ex1, ey1, ev4) =
            (if Utils_distance ex ey (x (player g)) (y (player g)) < SPAWN_SAFETY_DISTANCE
             then (let alternativeEdge = (edge + 2) mod 4 in edgePoint alternativeEdge ev3)
             else (ex, ey, ev3))
      in case (case enemyType of None \<Rightarrow> None | Some t \<Rightarrow> ENEMY_REGISTRY t) of
           Some EnemyClass \<Rightarrow> (g\<lparr>enemies := enemies g @ [EnemyClass ex1 ey1]\<rparr>, ev4)
         | None \<Rightarrow> (g, ev4))"

subsection \<open>handleCollisions\<close>

text \<open>
  The three passes of \<open>handleCollisions\<close>, each a \<open>forEach\<close> over a list whose
  elements it mutates in place.
\<close>

fun playerVsEnemies :: "enemy list \<Rightarrow> player \<Rightarrow> player" where
  "playerVsEnemies [] p = p"
| "playerVsEnemies (e # es) p =
     playerVsEnemies es
       (if checkCircleCollision p e then
          (if canTakeDamage p then snd (Player_takeDamage (enemy.damage e) p) else p)
        else p)"

text \<open>The inner \<open>forEach\<close> of the second pass: one projectile against every enemy.\<close>

fun projectileVsEnemies ::
  "projectile \<Rightarrow> enemy list \<Rightarrow> nat \<Rightarrow> projectile \<times> enemy list \<times> nat" where
  "projectileVsEnemies pr [] k = (pr, [], k)"
| "projectileVsEnemies pr (e # es) k =
     (if checkCircleCollision pr e then
        (let e1 = enemy_takeDamage (projectile.damage pr) e;
             pr1 = pr\<lparr>alive := False\<rparr>;
             k1 = (if \<not> isAlive e1 then k + 1 else k);
             (pr2, es1, k2) = projectileVsEnemies pr1 es k1
         in (pr2, e1 # es1, k2))
      else
        (let (pr2, es1, k2) = projectileVsEnemies pr es k in (pr2, e # es1, k2)))"

fun projectilesVsEnemies ::
  "projectile list \<Rightarrow> enemy list \<Rightarrow> nat \<Rightarrow> projectile list \<times> enemy list \<times> nat" where
  "projectilesVsEnemies [] es k = ([], es, k)"
| "projectilesVsEnemies (pr # prs) es k =
     (if owner pr = owner_player then
        (let (pr1, es1, k1) = projectileVsEnemies pr es k;
             (prs1, es2, k2) = projectilesVsEnemies prs es1 k1
         in (pr1 # prs1, es2, k2))
      else
        (let (prs1, es2, k2) = projectilesVsEnemies prs es k in (pr # prs1, es2, k2)))"

fun projectilesVsPlayer :: "projectile list \<Rightarrow> player \<Rightarrow> projectile list \<times> player" where
  "projectilesVsPlayer [] p = ([], p)"
| "projectilesVsPlayer (pr # prs) p =
     (if owner pr \<noteq> owner_player \<and> owner pr \<noteq> owner_null then
        (if checkCircleCollision pr p then
           (if canTakeDamage p then
              (let p1 = snd (Player_takeDamage (projectile.damage pr) p);
                   pr1 = pr\<lparr>alive := False\<rparr>;
                   (prs1, p2) = projectilesVsPlayer prs p1
               in (pr1 # prs1, p2))
            else (let (prs1, p2) = projectilesVsPlayer prs p in (pr # prs1, p2)))
         else (let (prs1, p2) = projectilesVsPlayer prs p in (pr # prs1, p2)))
      else (let (prs1, p2) = projectilesVsPlayer prs p in (pr # prs1, p2)))"

definition handleCollisions :: "game \<Rightarrow> game" where
  "handleCollisions g =
     (let g1 = g\<lparr>player := playerVsEnemies (enemies g) (player g)\<rparr>;
          (prs1, es1, k1) = projectilesVsEnemies (projectiles g1) (enemies g1) (killCount g1);
          g2 = g1\<lparr>projectiles := prs1, enemies := es1, killCount := k1\<rparr>;
          (prs2, p2) = projectilesVsPlayer (projectiles g2) (player g2)
      in g2\<lparr>projectiles := prs2, player := p2\<rparr>)"

subsection \<open>The tick\<close>

text \<open>
  \<open>this.enemies.forEach(enemy => enemy.update(...))\<close>: a Tank may change the
  player, a Shooter may push a projectile and read \<open>Math.random()\<close>.
\<close>

fun updateEnemies ::
  "real \<Rightarrow> bounds \<Rightarrow> enemy list \<Rightarrow> player \<Rightarrow> projectile list \<Rightarrow> env
     \<Rightarrow> enemy list \<times> player \<times> projectile list \<times> env" where
  "updateEnemies deltaTime bnds [] p prs ev = ([], p, prs, ev)"
| "updateEnemies deltaTime bnds (e # es) p prs ev =
     (let (e1, p1, prs1, ev1) = enemy_update deltaTime bnds e p prs ev;
          (es1, p2, prs2, ev2) = updateEnemies deltaTime bnds es p1 prs1 ev1
      in (e1 # es1, p2, prs2, ev2))"

text \<open>
  \<open>updatePlaying\<close>, one function for each of its commented blocks, in their
  order: the player, firing, the weapon switch, the creator-mode toggle, spawning, the
  enemies, the projectiles, the collisions, the removal of dead objects and the
  game-over check.
\<close>

definition updatePlayer :: "real \<Rightarrow> bounds \<Rightarrow> game \<Rightarrow> game" where
  "updatePlayer deltaTime bnds g =
     (let g1 = g\<lparr>player := (player g)\<lparr>player.creatorMode := game.creatorMode g\<rparr>\<rparr>
      in g1\<lparr>player := Player_update deltaTime (inputManager g1) bnds (player g1)\<rparr>)"

definition handleFiring :: "game \<Rightarrow> env \<Rightarrow> game \<times> env" where
  "handleFiring g ev =
     (if isFiring (inputManager g) then
        (let mousePos = getMousePosition (inputManager g);
             (ok, ws, prs, ev1) =
               Player_fire (fst mousePos) (snd mousePos) (player g) (weapons g)
                 (projectiles g) ev
         in (g\<lparr>weapons := ws, projectiles := prs\<rparr>, ev1))
      else (g, ev))"

definition handleWeaponSwitch :: "game \<Rightarrow> env \<Rightarrow> game \<times> env" where
  "handleWeaponSwitch g ev =
     (let weaponSwitch = getWeaponSwitch (inputManager g)
      in if weaponSwitch then
           (let g1 = toggleWeapon g;
                (im, ev1) = clearWeaponSwitch (inputManager g1) ev
            in (g1\<lparr>inputManager := im\<rparr>, ev1))
         else (g, ev))"

definition handleCreatorModeToggle :: "game \<Rightarrow> env \<Rightarrow> game \<times> env" where
  "handleCreatorModeToggle g ev =
     (let creatorModeToggle = getCreatorModeToggle (inputManager g)
      in if creatorModeToggle then
           (let g1 = toggleCreatorMode g;
                (im, ev1) = clearCreatorModeToggle (inputManager g1) ev
            in (g1\<lparr>inputManager := im\<rparr>, ev1))
         else (g, ev))"

definition spawnEnemies :: "real \<Rightarrow> game \<Rightarrow> env \<Rightarrow> game \<times> env" where
  "spawnEnemies deltaTime g ev =
     (let g1 = g\<lparr>enemySpawnTimer := enemySpawnTimer g + deltaTime\<rparr>
      in if enemySpawnTimer g1 \<ge> ENEMY_SPAWN_INTERVAL then
           (let (g2, ev1) = spawnEnemy g1 ev in (g2\<lparr>enemySpawnTimer := 0\<rparr>, ev1))
         else (g1, ev))"

definition updateAllEnemies :: "real \<Rightarrow> bounds \<Rightarrow> game \<Rightarrow> env \<Rightarrow> game \<times> env" where
  "updateAllEnemies deltaTime bnds g ev =
     (let (es, p, prs, ev1) =
            updateEnemies deltaTime bnds (enemies g) (player g) (projectiles g) ev
      in (g\<lparr>enemies := es, player := p, projectiles := prs\<rparr>, ev1))"

definition updateProjectiles :: "real \<Rightarrow> bounds \<Rightarrow> game \<Rightarrow> game" where
  "updateProjectiles deltaTime bnds g =
     g\<lparr>projectiles := map (Projectile_update deltaTime bnds) (projectiles g)\<rparr>"

definition removeDead :: "game \<Rightarrow> game" where
  "removeDead g =
     (let g1 = g\<lparr>enemies := filter isAlive (enemies g)\<rparr>
      in g1\<lparr>projectiles := filter isAlive (projectiles g1)\<rparr>)"

definition checkGameOver :: "game \<Rightarrow> game" where
  "checkGameOver g =
     (if \<not> isAlive (player g) then
        (let g1 = g\<lparr>stateMachine := setState GAME_OVER (stateMachine g)\<rparr>
         in g1\<lparr>hud := hud g1 @ [gameOverScreen_show, finalScore_set (killCount g1)]\<rparr>)
      else g)"

definition updatePlaying :: "real \<Rightarrow> game \<Rightarrow> env \<Rightarrow> game \<times> env" where
  "updatePlaying deltaTime g ev =
     (let bnds = \<lparr>width = ARENA_WIDTH, height = ARENA_HEIGHT\<rparr>;
          g1 = updatePlayer deltaTime bnds g;
          (g2, ev2) = handleFiring g1 ev;
          (g3, ev3) = handleWeaponSwitch g2 ev2;
          (g4, ev4) = handleCreatorModeToggle g3 ev3;
          (g5, ev5) = spawnEnemies deltaTime g4 ev4;
          (g6, ev6) = updateAllEnemies deltaTime bnds g5 ev5;
          g7 = updateProjectiles deltaTime bnds g6;
          g8 = handleCollisions g7;
          g9 = removeDead g8
      in (checkGameOver g9, ev6))"

definition updateGameOver :: "real \<Rightarrow> game \<Rightarrow> game" where
  "updateGameOver deltaTime g = g"

text \<open>\<open>Game.update(deltaTime)\<close>, the tick that \<open>gameLoop\<close> runs once per frame.\<close>

definition update :: "real \<Rightarrow> game \<Rightarrow> env \<Rightarrow> game \<times> env" where
  "update deltaTime g ev =
     (let g1 = g\<lparr>inputManager := InputManager_update deltaTime (inputManager g)\<rparr>;
          (g2, ev2) =
            (case getState (stateMachine g1) of
               PLAYING \<Rightarrow> updatePlaying deltaTime g1 ev
             | GAME_OVER \<Rightarrow> (updateGameOver deltaTime g1, ev)
             | _ \<Rightarrow> (g1, ev));
          g3 = handleCollisions g2;
          \<comment> \<open>\<open>this.updateHUD()\<close>\<close>
          g4 = (if \<not> isAlive (player g3) \<and> getState (stateMachine g3) = PLAYING then
                  Game_showToast ''Game Over! Press R to restart''
                    (g3\<lparr>stateMachine := setState GAME_OVER (stateMachine g3)\<rparr>)
                else g3)
      in (g4, ev2))"

section \<open>Runs and scenarios\<close>




definition arena :: bounds where
  "arena = \<lparr>width = ARENA_WIDTH, height = ARENA_HEIGHT\<rparr>"

text \<open>An environment whose clock always reads 1 s and whose random numbers are 0.\<close>

definition env0 :: env where
  "env0 = \<lparr>clock = sconst 1000, random = sconst 0\<rparr>"

definition creator_player :: player where
  "creator_player = (Player_new 600 400)\<lparr>player.creatorMode := True\<rparr>"

definition machineGun30 :: weapon where
  "machineGun30 = MachineGun_new\<lparr>currentAmmo := 30\<rparr>"

definition playerBullet :: "real \<Rightarrow> real \<Rightarrow> projectile" where
  "playerBullet x0 y0 = Projectile_new x0 y0 0 (- BULLET_SPEED) BULLET_RADIUS 1 ''#FFFF00'' owner_player"

text \<open>One player bullet that overlaps two Assassins, 10 pt apart.\<close>

definition game_one_bullet_two_enemies :: game where
  "game_one_bullet_two_enemies =
     Game_init\<lparr>enemies := [Assassin_new 600 100, Assassin_new 600 110],
               projectiles := [playerBullet 600 100]\<rparr>"

text \<open>Two player bullets that overlap one Assassin.\<close>

definition game_two_bullets_one_enemy :: game where
  "game_two_bullets_one_enemy =
     Game_init\<lparr>enemies := [Assassin_new 600 100],
               projectiles := [playerBullet 600 100, playerBullet 600 100]\<rparr>"

definition tank_state0 :: tank_state where
  "tank_state0 = \<lparr>contactCooldown = 0, flashTimer = 0, isFlashing = False, lastContactTime = 0\<rparr>"




section \<open>Invariants\<close>

text \<open>
  A player is either alive with positive health, or dead with none and inside the
  invulnerability window that the fatal hit started.
\<close>

definition sound_player :: "player \<Rightarrow> bool" where
  "sound_player p =
     ((alive p \<and> 0 < hp p) \<or> (\<not> alive p \<and> hp p \<le> 0 \<and> 0 < iframeTimer p))"

text \<open>
  A game is consistent when it is PLAYING with a live player of positive health, or
  GAME_OVER with a dead one.
\<close>

definition consistent :: "game \<Rightarrow> bool" where
  "consistent g =
     ((currentState (stateMachine g) = PLAYING \<and> alive (player g) \<and> 0 < hp (player g)) \<or>
      (currentState (stateMachine g) = GAME_OVER \<and> \<not> alive (player g) \<and>
       hp (player g) \<le> 0 \<and> 0 < iframeTimer (player g)))"


text \<open>
  The circle that the collision test reads of an object, and the games in which no
  projectile of the player overlaps an enemy.
\<close>

definition place :: "'a entity_scheme \<Rightarrow> real \<times> real \<times> real" where
  "place e = (x e, y e, radius e)"

definition off_enemies :: "enemy list \<Rightarrow> projectile \<Rightarrow> bool" where
  "off_enemies es pr =
     (owner pr = owner_player \<longrightarrow> list_all (\<lambda>e. \<not> checkCircleCollision pr e) es)"

definition no_bullet_on_enemy :: "game \<Rightarrow> bool" where
  "no_bullet_on_enemy g = list_all (off_enemies (enemies g)) (projectiles g)"

text \<open>
  What a run keeps: the game is consistent, and in GAME_OVER no projectile of the
  player overlaps an enemy.
\<close>

definition settled :: "game \<Rightarrow> bool" where
  "settled g =
     (consistent g \<and> (currentState (stateMachine g) = GAME_OVER \<longrightarrow> no_bullet_on_enemy g))"
section \<open>Properties\<close>

subsection \<open>Constants and scenario states\<close>

lemmas scenario_defs =
  Player_new_def Tank_new_def Assassin_new_def arena_def isAlive_def canTakeDamage_def
  PLAYER_SPEED_def PLAYER_RADIUS_def PLAYER_MAX_HP_def PLAYER_IFRAME_DURATION_def
  TANK_SPEED_def TANK_RADIUS_def TANK_HP_def TANK_CONTACT_COOLDOWN_def TANK_KNOCKBACK_def
  ARENA_WIDTH_def ARENA_HEIGHT_def COLLISION_EPSILON_def ASSASSIN_RADIUS_def ASSASSIN_SPEED_def
  BULLET_RADIUS_def BULLET_SPEED_def

lemma Game_init_player:
  "player Game_init = (Player_new 600 400)\<lparr>weapon := Some pistol\<rparr>"
  by (simp add: Game_init_def initGameObjects_def setWeapon_def Let_def ARENA_WIDTH_def ARENA_HEIGHT_def)

lemma Game_init_simps:
  "killCount Game_init = 0" "enemies Game_init = []" "projectiles Game_init = []"
  "currentState (stateMachine Game_init) = PLAYING"
  by (simp_all add: Game_init_def initGameObjects_def setState_def GameStateMachine_new_def Let_def)

lemma playerBullet_simps:
  "owner (playerBullet bx by') = owner_player" "projectile.damage (playerBullet bx by') = 1"
  "alive (playerBullet bx by')"
  by (simp_all add: playerBullet_def Projectile_new_def)

lemma machineGun30_simps:
  "wclass machineGun30 = MachineGun" "weapon.ammo machineGun30 = 50"
  "currentAmmo machineGun30 = 30" "weapon.fireRate machineGun30 = 1 / 2"
  "weapon.lastFireTime machineGun30 = 0"
  by (simp_all add: machineGun30_def MachineGun_new_def Weapon_new_def MACHINE_GUN_AMMO_def
        MACHINE_GUN_FIRE_RATE_def)

subsection \<open>Player damage\<close>


lemma Player_update_iframe:
  "iframeTimer (Player_update deltaTime im bnds p) =
     (if iframeTimer p > 0 then iframeTimer p - deltaTime else iframeTimer p)"
  by (simp add: Player_update_def Let_def)

lemma playerVsEnemies_invulnerable:
  "iframeTimer p > 0 \<Longrightarrow> playerVsEnemies es p = p"
  by (induction es) (simp_all add: canTakeDamage_def)


text \<open>
  C3. A \<open>Player.takeDamage\<close> that returns true leaves the invulnerability window
  open; a call made while the window is open returns false and leaves the player, its
  health included, as it was; and a tick shorter than what is left of the window leaves
  it open. The window is \<open>iframeTimer > 0\<close> in gameplay.js (the negation of
  \<open>canTakeDamage\<close>) and the flag \<open>invulnerable\<close> in entities.js.
\<close>

theorem takeDamage_invulnerability_window:
  "(fst (Player_takeDamage dmg p) \<longrightarrow> \<not> canTakeDamage (snd (Player_takeDamage dmg p))) \<and>
   (\<not> canTakeDamage q \<longrightarrow> Player_takeDamage dmg' q = (False, q)) \<and>
   (deltaTime < iframeTimer q \<and> 0 \<le> deltaTime \<longrightarrow>
      \<not> canTakeDamage (Player_update deltaTime im bnds q)) \<and>
   (fst (m_Player_takeDamage dmg pm) \<longrightarrow> invulnerable (snd (m_Player_takeDamage dmg pm))) \<and>
   (invulnerable qm \<longrightarrow> m_Player_takeDamage dmg' qm = (False, qm))"
  by (simp add: Player_takeDamage_def canTakeDamage_def m_Player_takeDamage_def
        PLAYER_IFRAME_DURATION_def Player_update_iframe)

theorem takeDamage_invulnerability_window_witness:
  "fst (Player_takeDamage 1 (Player_new 600 400)) \<and>
   \<not> canTakeDamage (snd (Player_takeDamage 1 (Player_new 600 400))) \<and>
   Player_takeDamage 1 (snd (Player_takeDamage 1 (Player_new 600 400))) =
     (False, snd (Player_takeDamage 1 (Player_new 600 400))) \<and>
   hp (snd (Player_takeDamage 1 (snd (Player_takeDamage 1 (Player_new 600 400))))) = 2 \<and>
   \<not> canTakeDamage
       (Player_update (1 / 60) InputManager_new arena (snd (Player_takeDamage 1 (Player_new 600 400)))) \<and>
   fst (m_Player_takeDamage 1 (m_Player_new 600 400)) \<and>
   invulnerable (snd (m_Player_takeDamage 1 (m_Player_new 600 400))) \<and>
   m_Player_takeDamage 1 (snd (m_Player_takeDamage 1 (m_Player_new 600 400))) =
     (False, snd (m_Player_takeDamage 1 (m_Player_new 600 400))) \<and>
   health (snd (m_Player_takeDamage 1 (snd (m_Player_takeDamage 1 (m_Player_new 600 400))))) = 2"
proof -
  let ?p = "Player_new 600 400" and ?pm = "m_Player_new 600 400"
  have f: "fst (Player_takeDamage 1 ?p)"
    by (simp add: Player_takeDamage_def Player_new_def)
  have h: "hp (snd (Player_takeDamage 1 ?p)) = 2"
    "iframeTimer (snd (Player_takeDamage 1 ?p)) = 4 / 5"
    by (simp_all add: Player_takeDamage_def Player_new_def Entity_takeDamage_def Let_def
          PLAYER_MAX_HP_def PLAYER_IFRAME_DURATION_def)
  have fm: "fst (m_Player_takeDamage 1 ?pm)"
    by (simp add: m_Player_takeDamage_def m_Player_new_def)
  have hm: "health (snd (m_Player_takeDamage 1 ?pm)) = 2"
    by (simp add: m_Player_takeDamage_def m_Player_new_def m_Entity_takeDamage_def Let_def
          CONFIG_player_maxHealth_def)
  from takeDamage_invulnerability_window
         [where p = ?p and dmg = 1 and q = "snd (Player_takeDamage 1 ?p)" and dmg' = 1
            and deltaTime = "1 / 60" and im = InputManager_new and bnds = arena
            and pm = ?pm and qm = "snd (m_Player_takeDamage 1 ?pm)"]
  show ?thesis using f h fm hm by simp
qed

text \<open>
  C10, as amended. With \<open>creatorMode\<close> set, \<open>Player.takeDamage\<close> never changes
  \<open>hp\<close> or \<open>alive\<close>, whatever the damage. It returns true and starts the
  invulnerability and flash timers when the invulnerability timer is not running
  (\<open>iframeTimer \<le> 0\<close>); while the timer is running it returns false and changes
  nothing.
\<close>

theorem creatorMode_takeDamage:
  assumes "player.creatorMode p"
  shows "hp (snd (Player_takeDamage dmg p)) = hp p \<and>
         alive (snd (Player_takeDamage dmg p)) = alive p \<and>
         (iframeTimer p \<le> 0 \<longrightarrow>
            Player_takeDamage dmg p =
              (True, p\<lparr>iframeTimer := PLAYER_IFRAME_DURATION, player.flashTimer := 0.1\<rparr>)) \<and>
         (iframeTimer p > 0 \<longrightarrow> Player_takeDamage dmg p = (False, p))"
  using assms by (simp add: Player_takeDamage_def)

theorem creatorMode_takeDamage_witness:
  "player.creatorMode creator_player \<and> iframeTimer creator_player \<le> 0 \<and>
   hp (snd (Player_takeDamage 5 creator_player)) = 3 \<and>
   Player_takeDamage 5 creator_player =
     (True, creator_player\<lparr>iframeTimer := PLAYER_IFRAME_DURATION, player.flashTimer := 0.1\<rparr>)"
proof -
  have c: "player.creatorMode creator_player"
    by (simp add: creator_player_def Player_new_def)
  have i: "iframeTimer creator_player \<le> 0"
    by (simp add: creator_player_def Player_new_def)
  have h: "hp creator_player = 3"
    by (simp add: creator_player_def Player_new_def PLAYER_MAX_HP_def)
  show ?thesis
    using c i h creatorMode_takeDamage [OF c, of 5] by simp
qed

text \<open>
  C10 as stated fails while the invulnerability timer runs: the creator-mode player
  below is 0.5 s into the window, and the call returns false and restarts no timer.
\<close>

theorem creatorMode_takeDamage_counterexample:
  "player.creatorMode (creator_player\<lparr>iframeTimer := 0.5\<rparr>) \<and>
   Player_takeDamage 1 (creator_player\<lparr>iframeTimer := 0.5\<rparr>) =
     (False, creator_player\<lparr>iframeTimer := 0.5\<rparr>)"
  by (simp add: Player_takeDamage_def creator_player_def Player_new_def)

subsection \<open>Enemies and a dead player\<close>



subsection \<open>Tank contact damage\<close>

lemma scaled_norm:
  fixes dx dy d k :: real
  assumes "0 < d" "d = sqrt (dx * dx + dy * dy)" "0 \<le> k"
  shows "sqrt ((dx + dx / d * k) * (dx + dx / d * k) + (dy + dy / d * k) * (dy + dy / d * k)) = d + k"
proof -
  have e: "(dx + dx / d * k) * (dx + dx / d * k) + (dy + dy / d * k) * (dy + dy / d * k)
        = (1 + k / d) * (1 + k / d) * (dx * dx + dy * dy)"
    by (simp add: algebra_simps add_divide_distrib)
  have p: "0 \<le> 1 + k / d" using assms by simp
  have "sqrt ((1 + k / d) * (1 + k / d) * (dx * dx + dy * dy)) = (1 + k / d) * d"
    using p assms(2) by (simp add: real_sqrt_mult)
  also have "\<dots> = d + k" using assms(1) by (simp add: algebra_simps)
  finally show ?thesis using e by simp
qed

lemma dealContactDamage_hit:
  assumes elig: "canTakeDamage p" and nocm: "\<not> player.creatorMode p"
    and d: "d = Utils_distance (x e3) (y e3) (x p) (y p)" and pos: "0 < d"
  shows "dealContactDamage p st3 e3 =
           (st3\<lparr>contactCooldown := TANK_CONTACT_COOLDOWN\<rparr>,
            (Entity_takeDamage 1 p)
               \<lparr>iframeTimer := PLAYER_IFRAME_DURATION, player.flashTimer := 0.1,
                x := x p + (x p - x e3) / d * TANK_KNOCKBACK,
                y := y p + (y p - y e3) / d * TANK_KNOCKBACK\<rparr>)"
proof -
  have t: "Player_takeDamage 1 p =
             (True, (Entity_takeDamage 1 p)\<lparr>iframeTimer := PLAYER_IFRAME_DURATION, player.flashTimer := 0.1\<rparr>)"
    using elig nocm by (simp add: Player_takeDamage_def canTakeDamage_def)
  have xy: "x (Entity_takeDamage 1 p) = x p" "y (Entity_takeDamage 1 p) = y p"
    by (simp_all add: Entity_takeDamage_def Let_def)
  have n: "Utils_normalize (x p - x e3) (y p - y e3) = ((x p - x e3) / d, (y p - y e3) / d)"
    using d pos by (simp add: Utils_normalize_def Utils_distance_def Let_def)
  show ?thesis
    using d pos by (simp add: dealContactDamage_def t xy n Let_def)
qed

lemma dealContactDamage_coincident:
  assumes elig: "canTakeDamage p" and nocm: "\<not> player.creatorMode p"
    and d: "Utils_distance (x e3) (y e3) (x p) (y p) = 0"
  shows "dealContactDamage p st3 e3 =
           (st3\<lparr>contactCooldown := TANK_CONTACT_COOLDOWN\<rparr>,
            (Entity_takeDamage 1 p)
               \<lparr>iframeTimer := PLAYER_IFRAME_DURATION, player.flashTimer := 0.1\<rparr>)"
proof -
  have t: "Player_takeDamage 1 p =
             (True, (Entity_takeDamage 1 p)\<lparr>iframeTimer := PLAYER_IFRAME_DURATION, player.flashTimer := 0.1\<rparr>)"
    using elig nocm by (simp add: Player_takeDamage_def canTakeDamage_def)
  have xy: "x (Entity_takeDamage 1 p) = x p" "y (Entity_takeDamage 1 p) = y p"
    by (simp_all add: Entity_takeDamage_def Let_def)
  show ?thesis
    using d by (simp add: dealContactDamage_def t xy Let_def)
qed

lemma Tank_update_fst:
  "isAlive p \<Longrightarrow> \<exists>st4. fst (Tank_update deltaTime p bnds st e) = (Tank_pursue deltaTime p bnds e)\<lparr>cls := Tank st4\<rparr>"
  by (auto simp add: Tank_update_def Let_def split_def)

lemma Tank_update_in_cooldown:
  "contactCooldown st - deltaTime > 0 \<Longrightarrow> snd (Tank_update deltaTime p bnds st e) = p"
  by (simp add: Tank_update_def Tank_timers_def Let_def)

lemma Tank_pursue_scenario:
  "Tank_pursue (1 / 60) (Player_new 600 400) arena (Tank_new 630 400) =
     (Tank_new 630 400)\<lparr>x := 628, vx := - 120, vy := 0\<rparr>"
  by (simp add: Tank_pursue_def Utils_distance_def Utils_normalize_def Enemy_update_def
        Entity_update_def clampToArena_def Utils_clamp_def Let_def scenario_defs)

text \<open>
  C9, as amended. A live player who can take damage and is not in creator mode, and a
  Tank whose contact cooldown has run out and whose centre, after its move of this
  update, is at a distance \<open>d\<close> from the player's with
  \<open>0 < d < tank.radius + player.radius\<close>: \<open>Tank.update\<close> takes exactly 1 from
  the player's health, moves the player by \<open>TANK_KNOCKBACK\<close> along the unit vector
  from the Tank to the player (the distance grows by exactly that amount), starts the
  player's invulnerability window and sets the Tank's cooldown to
  \<open>TANK_CONTACT_COOLDOWN\<close>. An update of a Tank whose cooldown is still positive after
  the decrement leaves the player as it was, and so does the player-against-enemies pass
  of \<open>handleCollisions\<close> for as long as the cooldown lasts: the invulnerability
  window is the longer of the two.
\<close>

theorem tank_contact_scenario:
  assumes alive: "isAlive p" and elig: "canTakeDamage p" and nocm: "\<not> player.creatorMode p"
    and cool: "contactCooldown st - deltaTime \<le> 0"
    and res: "Tank_update deltaTime p bnds st e = (e', p')"
    and d: "d = Utils_distance (x e') (y e') (x p) (y p)"
    and pos: "0 < d" and ov: "d < radius e' + radius p"
  shows "hp p' = hp p - 1 \<and>
         x p' = x p + (x p - x e') / d * TANK_KNOCKBACK \<and>
         y p' = y p + (y p - y e') / d * TANK_KNOCKBACK \<and>
         Utils_distance (x e') (y e') (x p') (y p') = d + TANK_KNOCKBACK \<and>
         iframeTimer p' = PLAYER_IFRAME_DURATION \<and>
         (\<exists>st'. cls e' = Tank st' \<and> contactCooldown st' = TANK_CONTACT_COOLDOWN) \<and>
         (\<forall>dt2 q b2 st2 e2. contactCooldown st2 - dt2 > 0 \<longrightarrow>
            snd (Tank_update dt2 q b2 st2 e2) = q) \<and>
         (\<forall>elapsed es q. elapsed < TANK_CONTACT_COOLDOWN \<longrightarrow>
            iframeTimer q = iframeTimer p' - elapsed \<longrightarrow> playerVsEnemies es q = q)"
proof -
  define e3 where "e3 = Tank_pursue deltaTime p bnds e"
  define st3 where "st3 = Tank_timers deltaTime st"
  have c3: "contactCooldown st3 \<le> 0"
    using cool by (simp add: st3_def Tank_timers_def Let_def)
  obtain st4 where e': "e' = e3\<lparr>cls := Tank st4\<rparr>"
    using Tank_update_fst [OF alive, of deltaTime bnds st e] res by (auto simp: e3_def)
  have pos3: "x e' = x e3" "y e' = y e3" "radius e' = radius e3"
    by (simp_all add: e')
  have d3: "d = Utils_distance (x e3) (y e3) (x p) (y p)"
    using d by (simp add: pos3)
  have "Tank_update deltaTime p bnds st e =
          (e3\<lparr>cls := Tank (fst (dealContactDamage p st3 e3))\<rparr>, snd (dealContactDamage p st3 e3))"
    using alive c3 elig ov d3 pos3
    by (simp add: Tank_update_def Let_def split_def e3_def [symmetric] st3_def [symmetric])
  then have r: "e' = e3\<lparr>cls := Tank (st3\<lparr>contactCooldown := TANK_CONTACT_COOLDOWN\<rparr>)\<rparr>"
      "p' = (Entity_takeDamage 1 p)
               \<lparr>iframeTimer := PLAYER_IFRAME_DURATION, player.flashTimer := 0.1,
                x := x p + (x p - x e3) / d * TANK_KNOCKBACK,
                y := y p + (y p - y e3) / d * TANK_KNOCKBACK\<rparr>"
    using res dealContactDamage_hit [OF elig nocm d3 pos, of st3] by simp_all
  have h: "hp p' = hp p - 1"
    by (simp add: r Entity_takeDamage_def Let_def)
  have xs: "x p' = x p + (x p - x e') / d * TANK_KNOCKBACK"
           "y p' = y p + (y p - y e') / d * TANK_KNOCKBACK"
    by (simp_all add: r)
  have dist: "Utils_distance (x e') (y e') (x p') (y p') = d + TANK_KNOCKBACK"
  proof -
    have "d = sqrt ((x p - x e') * (x p - x e') + (y p - y e') * (y p - y e'))"
      using d by (simp add: Utils_distance_def Let_def)
    from scaled_norm [OF pos this, of TANK_KNOCKBACK]
    show ?thesis
      by (simp add: Utils_distance_def Let_def xs TANK_KNOCKBACK_def algebra_simps)
  qed
  have i: "iframeTimer p' = PLAYER_IFRAME_DURATION"
    by (simp add: r)
  have cd: "\<exists>st'. cls e' = Tank st' \<and> contactCooldown st' = TANK_CONTACT_COOLDOWN"
    by (simp add: r)
  have inv: "playerVsEnemies es q = q"
    if "elapsed < TANK_CONTACT_COOLDOWN" and "iframeTimer q = iframeTimer p' - elapsed"
    for elapsed es q
  proof (rule playerVsEnemies_invulnerable)
    show "0 < iframeTimer q"
      using that i by (simp add: TANK_CONTACT_COOLDOWN_def PLAYER_IFRAME_DURATION_def)
  qed
  show ?thesis
    using h xs dist i cd Tank_update_in_cooldown inv by blast
qed

theorem tank_contact_scenario_witness:
  "isAlive (Player_new 600 400) \<and> canTakeDamage (Player_new 600 400) \<and>
   \<not> player.creatorMode (Player_new 600 400) \<and>
   contactCooldown tank_state0 - 1 / 60 \<le> 0 \<and>
   hp (snd (Tank_update (1 / 60) (Player_new 600 400) arena tank_state0 (Tank_new 630 400))) = 2 \<and>
   x (snd (Tank_update (1 / 60) (Player_new 600 400) arena tank_state0 (Tank_new 630 400))) = 592 \<and>
   y (snd (Tank_update (1 / 60) (Player_new 600 400) arena tank_state0 (Tank_new 630 400))) = 400"
proof -
  let ?p = "Player_new 600 400"
  let ?r = "Tank_update (1 / 60) ?p arena tank_state0 (Tank_new 630 400)"
  have a: "isAlive ?p" and c: "canTakeDamage ?p" and n: "\<not> player.creatorMode ?p"
    by (simp_all add: scenario_defs)
  have k: "contactCooldown tank_state0 - 1 / 60 \<le> 0"
    by (simp add: tank_state0_def)
  have r: "?r = (fst ?r, snd ?r)" by simp
  obtain st4 where f: "fst ?r = (Tank_pursue (1 / 60) ?p arena (Tank_new 630 400))\<lparr>cls := Tank st4\<rparr>"
    using Tank_update_fst [OF a] by blast
  have xs: "x (fst ?r) = 628" "y (fst ?r) = 400" "radius (fst ?r) = 25"
    by (simp_all add: f Tank_pursue_scenario) (simp_all add: scenario_defs)
  have pp: "x ?p = 600" "y ?p = 400" "radius ?p = 16" "hp ?p = 3"
    by (simp_all add: scenario_defs)
  have d: "28 = Utils_distance (x (fst ?r)) (y (fst ?r)) (x ?p) (y ?p)"
    by (simp add: xs pp Utils_distance_def)
  have "(0::real) < 28" and ov: "28 < radius (fst ?r) + radius ?p"
    by (simp_all add: xs pp)
  from tank_contact_scenario [OF a c n k r d this]
  show ?thesis using a c n k by (simp add: xs pp TANK_KNOCKBACK_def)
qed

text \<open>
  C9 as stated fails when the Tank's centre is the player's: the player at the arena
  centre loses 1 health and is not displaced, since there is no contact normal.
\<close>

theorem tank_coincident_counterexample:
  "isAlive (Player_new 600 400) \<and> canTakeDamage (Player_new 600 400) \<and>
   hp (Player_new 600 400) = 3 \<and>
   Utils_distance 600 400 (x (Player_new 600 400)) (y (Player_new 600 400))
     < radius (Tank_new 600 400) + radius (Player_new 600 400) \<and>
   hp (snd (Tank_update (1 / 60) (Player_new 600 400) arena tank_state0 (Tank_new 600 400))) = 2 \<and>
   x (snd (Tank_update (1 / 60) (Player_new 600 400) arena tank_state0 (Tank_new 600 400))) = 600 \<and>
   y (snd (Tank_update (1 / 60) (Player_new 600 400) arena tank_state0 (Tank_new 600 400))) = 400"
proof -
  let ?p = "Player_new 600 400"
  have a: "isAlive ?p" and c: "canTakeDamage ?p" and n: "\<not> player.creatorMode ?p"
    by (simp_all add: scenario_defs)
  have tp: "Tank_pursue (1 / 60) ?p arena (Tank_new 600 400) = Tank_new 600 400"
    by (simp add: Tank_pursue_def Utils_distance_def Utils_normalize_def Enemy_update_def
          Entity_update_def clampToArena_def Utils_clamp_def Let_def scenario_defs)
  have d0: "Utils_distance (x (Tank_new 600 400)) (y (Tank_new 600 400)) (x ?p) (y ?p) = 0"
    by (simp add: Utils_distance_def scenario_defs)
  have tt: "contactCooldown (Tank_timers (1 / 60) tank_state0) \<le> 0"
    by (simp add: Tank_timers_def tank_state0_def Let_def)
  have rr: "radius (Tank_new 600 400) + radius ?p = 41"
    by (simp add: scenario_defs)
  have "snd (Tank_update (1 / 60) ?p arena tank_state0 (Tank_new 600 400)) =
          snd (dealContactDamage ?p (Tank_timers (1 / 60) tank_state0) (Tank_new 600 400))"
    using a c tt by (simp add: Tank_update_def Let_def split_def tp d0 rr)
  also have "\<dots> = (Entity_takeDamage 1 ?p)\<lparr>iframeTimer := PLAYER_IFRAME_DURATION, player.flashTimer := 0.1\<rparr>"
    by (simp add: dealContactDamage_coincident [OF c n d0])
  finally show ?thesis
    using a c by (simp add: Entity_takeDamage_def Let_def Utils_distance_def) (simp add: scenario_defs)
qed

subsection \<open>MachineGun ammunition\<close>

lemma distance_zero_iff:
  fixes dx dy :: real
  shows "sqrt (dx * dx + dy * dy) = 0 \<longleftrightarrow> dx = 0 \<and> dy = 0"
  by (simp add: sum_squares_eq_zero_iff)

lemma MachineGun_fire_success:
  assumes mg: "wclass w = MachineGun"
    and time: "shd (clock ev) / 1000 - weapon.lastFireTime w \<ge> weapon.fireRate w"
    and rounds: "currentAmmo w > 0" and cap: "weapon.ammo w > 0"
    and aim: "(targetX, targetY) \<noteq> (fromX, fromY)"
  shows "\<exists>pr. Weapon_fire fromX fromY targetX targetY w prs ev =
           (True,
            w\<lparr>weapon.lastFireTime := shd (stl (clock ev)) / 1000,
              currentAmmo := currentAmmo w - 1\<rparr>,
            prs @ [pr],
            ev\<lparr>clock := stl (stl (clock ev))\<rparr>)"
proof -
  have cf: "canFire w ev = (True, ev\<lparr>clock := stl (clock ev)\<rparr>)"
    using mg time rounds by (simp add: canFire_def MachineGun_canFire_def Date_now_def Let_def)
  have nz: "sqrt ((targetX - fromX) * (targetX - fromX) + (targetY - fromY) * (targetY - fromY)) \<noteq> 0"
    using aim by (simp add: distance_zero_iff)
  then obtain pr where cp: "createProjectile w fromX fromY targetX targetY = Some pr"
    using mg by (simp add: createProjectile_def MachineGun_createProjectile_def Let_def)
  show ?thesis
    using cap by (simp add: Weapon_fire_def cf cp Date_now_def Let_def)
qed


lemma Weapon_fire_at_self:
  "Weapon_fire fromX fromY fromX fromY w prs ev = (False, w, prs, snd (Date_now ev))"
  by (cases "wclass w")
     (simp_all add: Weapon_fire_def canFire_def MachineGun_canFire_def Weapon_canFire_def Date_now_def
        createProjectile_def MachineGun_createProjectile_def Pistol_createProjectile_def Let_def)







subsection \<open>The collision pass\<close>

lemma handleCollisions_sel:
  "enemies (handleCollisions g) =
     fst (snd (projectilesVsEnemies (projectiles g) (enemies g) (killCount g)))"
  "killCount (handleCollisions g) =
     snd (snd (projectilesVsEnemies (projectiles g) (enemies g) (killCount g)))"
  "projectiles (handleCollisions g) =
     fst (projectilesVsPlayer
            (fst (projectilesVsEnemies (projectiles g) (enemies g) (killCount g)))
            (playerVsEnemies (enemies g) (player g)))"
  "player (handleCollisions g) =
     snd (projectilesVsPlayer
            (fst (projectilesVsEnemies (projectiles g) (enemies g) (killCount g)))
            (playerVsEnemies (enemies g) (player g)))"
  "stateMachine (handleCollisions g) = stateMachine g"
  "hud (handleCollisions g) = hud g"
  by (simp_all add: handleCollisions_def Let_def split_def)

lemma checkCircleCollision_alive [simp]:
  "checkCircleCollision (a\<lparr>alive := v\<rparr>) b = checkCircleCollision a b"
  "checkCircleCollision a (b\<lparr>alive := v\<rparr>) = checkCircleCollision a b"
  "checkCircleCollision (a\<lparr>hp := h\<rparr>) b = checkCircleCollision a b"
  "checkCircleCollision a (b\<lparr>hp := h\<rparr>) = checkCircleCollision a b"
  by (simp_all add: checkCircleCollision_def)

lemma Assassin_takeDamage:
  "enemy_takeDamage 1 (Assassin_new ax ay) = (Assassin_new ax ay)\<lparr>hp := 0, alive := False\<rparr>"
  by (simp add: enemy_takeDamage_def Entity_takeDamage_def Assassin_new_def Let_def)

lemma Assassin_takeDamage_again:
  "enemy_takeDamage 1 ((Assassin_new ax ay)\<lparr>hp := 0, alive := False\<rparr>) =
     (Assassin_new ax ay)\<lparr>hp := - 1, alive := False\<rparr>"
  by (simp add: enemy_takeDamage_def Entity_takeDamage_def Assassin_new_def Let_def)

lemma bullet_overlaps:
  "checkCircleCollision (playerBullet 600 100) (Assassin_new 600 100)"
  "checkCircleCollision (playerBullet 600 100) (Assassin_new 600 110)"
  by (simp_all add: checkCircleCollision_def playerBullet_def Projectile_new_def Assassin_new_def
        BULLET_RADIUS_def ASSASSIN_RADIUS_def COLLISION_EPSILON_def)

lemma player_away:
  "\<not> checkCircleCollision ((Player_new 600 400)\<lparr>weapon := w\<rparr>) (Assassin_new 600 100)"
  "\<not> checkCircleCollision ((Player_new 600 400)\<lparr>weapon := w\<rparr>) (Assassin_new 600 110)"
  by (simp_all add: checkCircleCollision_def Player_new_def Assassin_new_def
        PLAYER_RADIUS_def ASSASSIN_RADIUS_def COLLISION_EPSILON_def)

text \<open>
  C1: what \<open>handleCollisions\<close> of js/main.js does with one player bullet that
  overlaps two Assassins. Both lose their health and die, and both are counted as
  kills: the inner \<open>forEach\<close> goes on after the first hit.
\<close>

theorem one_projectile_damages_two_enemies:
  "projectiles game_one_bullet_two_enemies = [playerBullet 600 100] \<and>
   map hp (enemies game_one_bullet_two_enemies) = [1, 1] \<and>
   map hp (enemies (handleCollisions game_one_bullet_two_enemies)) = [0, 0] \<and>
   map alive (enemies (handleCollisions game_one_bullet_two_enemies)) = [False, False] \<and>
   killCount (handleCollisions game_one_bullet_two_enemies) = 2"
proof -
  let ?g = game_one_bullet_two_enemies
  have g: "player ?g = (Player_new 600 400)\<lparr>weapon := Some pistol\<rparr>"
      "enemies ?g = [Assassin_new 600 100, Assassin_new 600 110]"
      "projectiles ?g = [playerBullet 600 100]"
      "killCount ?g = 0"
    by (simp_all add: game_one_bullet_two_enemies_def Game_init_player Game_init_simps)
  have pass1: "playerVsEnemies (enemies ?g) (player ?g) = player ?g"
    by (simp add: g player_away)
  have pass2: "projectilesVsEnemies (projectiles ?g) (enemies ?g) (killCount ?g) =
     ([(playerBullet 600 100)\<lparr>alive := False\<rparr>],
      [(Assassin_new 600 100)\<lparr>hp := 0, alive := False\<rparr>,
       (Assassin_new 600 110)\<lparr>hp := 0, alive := False\<rparr>], 2)"
    by (simp add: g playerBullet_simps bullet_overlaps Assassin_takeDamage isAlive_def)
  have pass3: "projectilesVsPlayer [(playerBullet 600 100)\<lparr>alive := False\<rparr>] pl =
                 ([(playerBullet 600 100)\<lparr>alive := False\<rparr>], pl)" for pl
    by (simp add: playerBullet_simps)
  have "enemies (handleCollisions ?g) =
          [(Assassin_new 600 100)\<lparr>hp := 0, alive := False\<rparr>,
           (Assassin_new 600 110)\<lparr>hp := 0, alive := False\<rparr>]"
       "killCount (handleCollisions ?g) = 2"
    by (simp_all add: handleCollisions_def Let_def pass1 pass2 pass3)
  then show ?thesis
    by (simp add: g) (simp add: Assassin_new_def)
qed

text \<open>
  C4: what \<open>handleCollisions\<close> of js/main.js does with two player bullets that
  overlap one Assassin of health 1. The second bullet hits the dead enemy, and the kill
  counter goes from 0 to 2.
\<close>

theorem dead_enemy_counted_twice:
  "map hp (enemies game_two_bullets_one_enemy) = [1] \<and>
   killCount game_two_bullets_one_enemy = 0 \<and>
   map hp (enemies (handleCollisions game_two_bullets_one_enemy)) = [- 1] \<and>
   killCount (handleCollisions game_two_bullets_one_enemy) = 2"
proof -
  let ?g = game_two_bullets_one_enemy
  have g: "enemies ?g = [Assassin_new 600 100]"
      "projectiles ?g = [playerBullet 600 100, playerBullet 600 100]"
      "killCount ?g = 0"
    by (simp_all add: game_two_bullets_one_enemy_def Game_init_simps)
  have pass2: "projectilesVsEnemies (projectiles ?g) (enemies ?g) (killCount ?g) =
     ([(playerBullet 600 100)\<lparr>alive := False\<rparr>, (playerBullet 600 100)\<lparr>alive := False\<rparr>],
      [(Assassin_new 600 100)\<lparr>hp := - 1, alive := False\<rparr>], 2)"
    by (simp add: g playerBullet_simps bullet_overlaps Assassin_takeDamage
          Assassin_takeDamage_again isAlive_def)
  show ?thesis
    by (simp add: handleCollisions_sel pass2) (simp add: g Assassin_new_def)
qed

subsection \<open>The tick and the game-over transition\<close>






















lemma sound_player_hp:
  "sound_player p \<Longrightarrow> (hp p \<le> 0) = (\<not> alive p)"
  by (auto simp: sound_player_def)




subsection \<open>Where the collision pass leaves the projectiles\<close>


lemma place_updates [simp]:
  "place (e\<lparr>alive := v\<rparr>) = place e"
  "place (e\<lparr>hp := h\<rparr>) = place e"
  by (simp_all add: place_def)

lemma enemy_takeDamage_place [simp]:
  "place (enemy_takeDamage dmg e) = place e"
  by (simp add: enemy_takeDamage_def Tank_takeDamage_def Entity_takeDamage_def place_def Let_def
        split: enemy_class.splits)
























subsection \<open>Runs of the game loop\<close>


lemma consistent_input [simp]:
  "consistent (g\<lparr>inputManager := im\<rparr>) = consistent g"
  by (simp add: consistent_def)

lemma settled_input [simp]:
  "settled (g\<lparr>inputManager := im\<rparr>) = settled g"
  by (simp add: settled_def no_bullet_on_enemy_def)








subsection \<open>A tick that ends the game\<close>










subsection \<open>GAME_OVER\<close>





subsection \<open>The fire rate\<close>

lemma m_Player_tryFire_cases:
  assumes "m_player.weapons p (currentWeapon p) = Some w"
  shows "m_Player_tryFire mx my now p = Inr (None, p) \<or>
         (\<exists>b w'. m_Player_tryFire mx my now p =
                    Inr (Some b, p\<lparr>m_player.weapons := (m_player.weapons p)(currentWeapon p \<mapsto> w')\<rparr>) \<and>
                  m_weapon.lastFireTime w' = now \<and> m_weapon.fireRate w' = m_weapon.fireRate w \<and>
                  m_weapon.fireRate w \<le> now - m_weapon.lastFireTime w)"
  using assms
  by (cases "m_weapon.ammo w") (auto simp: m_Player_tryFire_def Let_def)

lemma m_Player_tryFire_null:
  "m_Player_tryFire mx my now p = Inr (None, p') \<Longrightarrow> p' = p"
  by (auto simp: m_Player_tryFire_def Let_def split: option.splits if_splits)

lemma m_fire_calls_spaced:
  assumes "m_player.weapons p (currentWeapon p) = Some w"
  shows "\<exists>ts p' w'. m_fire_calls p calls = Inr (ts, p') \<and>
           successively (\<lambda>t1 t2. m_weapon.fireRate w \<le> t2 - t1) (m_weapon.lastFireTime w # ts) \<and>
           currentWeapon p' = currentWeapon p \<and>
           m_player.weapons p' (currentWeapon p') = Some w' \<and>
           m_weapon.fireRate w' = m_weapon.fireRate w"
  using assms
proof (induction calls arbitrary: p w)
  case Nil
  then show ?case by simp
next
  case (Cons c calls)
  obtain now mx my where c: "c = (now, mx, my)" by (cases c)
  from m_Player_tryFire_cases [OF Cons.prems, of mx my now]
  show ?case
  proof
    assume f: "m_Player_tryFire mx my now p = Inr (None, p)"
    from Cons.IH [OF Cons.prems] obtain ts p' w'
      where "m_fire_calls p calls = Inr (ts, p')"
        "successively (\<lambda>t1 t2. m_weapon.fireRate w \<le> t2 - t1) (m_weapon.lastFireTime w # ts)"
        "currentWeapon p' = currentWeapon p"
        "m_player.weapons p' (currentWeapon p') = Some w'"
        "m_weapon.fireRate w' = m_weapon.fireRate w"
      by blast
    then show ?thesis by (simp add: c f)
  next
    assume "\<exists>b w'. m_Player_tryFire mx my now p =
                    Inr (Some b, p\<lparr>m_player.weapons := (m_player.weapons p)(currentWeapon p \<mapsto> w')\<rparr>) \<and>
                  m_weapon.lastFireTime w' = now \<and> m_weapon.fireRate w' = m_weapon.fireRate w \<and>
                  m_weapon.fireRate w \<le> now - m_weapon.lastFireTime w"
    then obtain b w1 where f: "m_Player_tryFire mx my now p =
          Inr (Some b, p\<lparr>m_player.weapons := (m_player.weapons p)(currentWeapon p \<mapsto> w1)\<rparr>)"
      and w1: "m_weapon.lastFireTime w1 = now" "m_weapon.fireRate w1 = m_weapon.fireRate w"
      and ok: "m_weapon.fireRate w \<le> now - m_weapon.lastFireTime w"
      by blast
    define p1 where "p1 = p\<lparr>m_player.weapons := (m_player.weapons p)(currentWeapon p \<mapsto> w1)\<rparr>"
    have p1: "m_player.weapons p1 (currentWeapon p1) = Some w1" "currentWeapon p1 = currentWeapon p"
      by (simp_all add: p1_def)
    from Cons.IH [OF p1(1)] obtain ts p' w'
      where r: "m_fire_calls p1 calls = Inr (ts, p')"
        "successively (\<lambda>t1 t2. m_weapon.fireRate w1 \<le> t2 - t1) (m_weapon.lastFireTime w1 # ts)"
        "currentWeapon p' = currentWeapon p1"
        "m_player.weapons p' (currentWeapon p') = Some w'"
        "m_weapon.fireRate w' = m_weapon.fireRate w1"
      by blast
    have "m_fire_calls p (c # calls) = Inr (now # ts, p')"
      by (simp add: c f p1_def [symmetric] r(1))
    moreover have "successively (\<lambda>t1 t2. m_weapon.fireRate w \<le> t2 - t1)
                     (m_weapon.lastFireTime w # now # ts)"
      using r(2) ok by (simp add: w1)
    ultimately show ?thesis
      using r(3-5) p1(2) w1(2) by simp
  qed
qed

lemma Weapon_fire_false:
  "\<not> fst (Weapon_fire fromX fromY targetX targetY w prs ev) \<Longrightarrow>
     fst (snd (Weapon_fire fromX fromY targetX targetY w prs ev)) = w \<and>
     fst (snd (snd (Weapon_fire fromX fromY targetX targetY w prs ev))) = prs"
  by (simp add: Weapon_fire_def Let_def split_def split: option.splits if_splits)

lemma Weapon_fire_true:
  "fst (Weapon_fire fromX fromY targetX targetY w prs ev) \<Longrightarrow>
     weapon.fireRate w \<le> shd (clock ev) / 1000 - weapon.lastFireTime w \<and>
     weapon.lastFireTime (fst (snd (Weapon_fire fromX fromY targetX targetY w prs ev))) =
       shd (stl (clock ev)) / 1000 \<and>
     weapon.fireRate (fst (snd (Weapon_fire fromX fromY targetX targetY w prs ev))) = weapon.fireRate w"
  by (cases "wclass w")
     (auto simp: Weapon_fire_def Let_def split_def canFire_def Weapon_canFire_def
        MachineGun_canFire_def Date_now_def split: option.splits if_splits)

lemma m_Player_new_weapon:
  "m_player.weapons (m_Player_new x0 y0) (currentWeapon (m_Player_new x0 y0)) =
     Some (CONFIG_weapons_machineGun 0)"
  by (simp add: m_Player_new_def)

lemma m_tryFire_early:
  "m_Player_tryFire 10 0 100 (m_Player_new 0 0) = Inr (None, m_Player_new 0 0)"
  by (simp add: m_Player_tryFire_def m_Player_new_weapon CONFIG_weapons_machineGun_def)

lemma m_fire_calls_example:
  "map_sum id fst (m_fire_calls (m_Player_new 0 0) [(1000, 10, 0), (1200, 10, 0), (1500, 10, 0)]) =
     Inr [1000, 1500]"
  by (simp add: m_Player_tryFire_def m_Player_new_def CONFIG_weapons_machineGun_def Let_def)

text \<open>
  C5. \<open>Player.tryFire\<close> of entities.js: a call that returns \<open>null\<close> leaves the
  player, its weapon included, as it was. Any sequence of calls on a player that holds
  its current weapon returns; each clock reading at which a call returned a bullet is at
  least the weapon's \<open>fireRate\<close> after the one before it, the first at least
  \<open>fireRate\<close> after the weapon's initial \<open>lastFireTime\<close>, and \<open>fireRate\<close> itself
  never changes. \<open>Weapon.fire\<close> of gameplay.js: a call that returns false leaves the
  weapon and the projectile list as they were; a call that returns true read the clock,
  in \<open>canFire\<close>, at least \<open>fireRate\<close> after \<open>lastFireTime\<close>, and stores its second
  clock reading as the new \<open>lastFireTime\<close>.
\<close>

theorem fire_rate_spacing:
  "(m_Player_tryFire mx my now p = Inr (None, p') \<longrightarrow> p' = p) \<and>
   (m_player.weapons p (currentWeapon p) = Some w \<longrightarrow>
      (\<exists>ts q. m_fire_calls p calls = Inr (ts, q) \<and>
         successively (\<lambda>t1 t2. m_weapon.fireRate w \<le> t2 - t1) (m_weapon.lastFireTime w # ts) \<and>
         (\<exists>w'. m_player.weapons q (currentWeapon p) = Some w' \<and>
               m_weapon.fireRate w' = m_weapon.fireRate w))) \<and>
   (\<not> fst (Weapon_fire fromX fromY targetX targetY rw prs ev) \<longrightarrow>
      fst (snd (Weapon_fire fromX fromY targetX targetY rw prs ev)) = rw \<and>
      fst (snd (snd (Weapon_fire fromX fromY targetX targetY rw prs ev))) = prs) \<and>
   (fst (Weapon_fire fromX fromY targetX targetY rw prs ev) \<longrightarrow>
      weapon.fireRate rw \<le> shd (clock ev) / 1000 - weapon.lastFireTime rw \<and>
      weapon.lastFireTime (fst (snd (Weapon_fire fromX fromY targetX targetY rw prs ev))) =
        shd (stl (clock ev)) / 1000 \<and>
      weapon.fireRate (fst (snd (Weapon_fire fromX fromY targetX targetY rw prs ev))) =
        weapon.fireRate rw)"
proof -
  have a: "m_Player_tryFire mx my now p = Inr (None, p') \<longrightarrow> p' = p"
    using m_Player_tryFire_null by blast
  have b: "m_player.weapons p (currentWeapon p) = Some w \<longrightarrow>
      (\<exists>ts q. m_fire_calls p calls = Inr (ts, q) \<and>
         successively (\<lambda>t1 t2. m_weapon.fireRate w \<le> t2 - t1) (m_weapon.lastFireTime w # ts) \<and>
         (\<exists>w'. m_player.weapons q (currentWeapon p) = Some w' \<and>
               m_weapon.fireRate w' = m_weapon.fireRate w))"
  proof
    assume "m_player.weapons p (currentWeapon p) = Some w"
    from m_fire_calls_spaced [OF this, of calls] obtain ts p' w'
      where "m_fire_calls p calls = Inr (ts, p')"
        "successively (\<lambda>t1 t2. m_weapon.fireRate w \<le> t2 - t1) (m_weapon.lastFireTime w # ts)"
        "currentWeapon p' = currentWeapon p"
        "m_player.weapons p' (currentWeapon p') = Some w'"
        "m_weapon.fireRate w' = m_weapon.fireRate w"
      by blast
    then show "\<exists>ts q. m_fire_calls p calls = Inr (ts, q) \<and>
         successively (\<lambda>t1 t2. m_weapon.fireRate w \<le> t2 - t1) (m_weapon.lastFireTime w # ts) \<and>
         (\<exists>w'. m_player.weapons q (currentWeapon p) = Some w' \<and>
               m_weapon.fireRate w' = m_weapon.fireRate w)"
      by auto
  qed
  from a b Weapon_fire_false [of fromX fromY targetX targetY rw prs ev]
    Weapon_fire_true [of fromX fromY targetX targetY rw prs ev]
  show ?thesis by blast
qed

theorem fire_rate_spacing_witness:
  "m_Player_tryFire 10 0 100 (m_Player_new 0 0) = Inr (None, m_Player_new 0 0) \<and>
   m_player.weapons (m_Player_new 0 0) (currentWeapon (m_Player_new 0 0)) =
     Some (CONFIG_weapons_machineGun 0) \<and>
   map_sum id fst (m_fire_calls (m_Player_new 0 0) [(1000, 10, 0), (1200, 10, 0), (1500, 10, 0)]) =
     Inr [1000, 1500] \<and>
   successively (\<lambda>t1 t2. m_weapon.fireRate (CONFIG_weapons_machineGun 0) \<le> t2 - t1)
     [0, 1000, 1500] \<and>
   \<not> fst (Weapon_fire 0 0 0 0 machineGun30 [] env0) \<and>
   fst (snd (Weapon_fire 0 0 0 0 machineGun30 [] env0)) = machineGun30 \<and>
   fst (Weapon_fire 0 0 10 0 machineGun30 [] env0) \<and>
   weapon.fireRate machineGun30 \<le> shd (clock env0) / 1000 - weapon.lastFireTime machineGun30 \<and>
   weapon.lastFireTime (fst (snd (Weapon_fire 0 0 10 0 machineGun30 [] env0))) = 1"
proof -
  note t = fire_rate_spacing [where p = "m_Player_new 0 0" and mx = 10 and my = 0 and now = 100
      and p' = "m_Player_new 0 0" and w = "CONFIG_weapons_machineGun 0"
      and calls = "[(1000, 10, 0), (1200, 10, 0), (1500, 10, 0)]" and rw = machineGun30
      and prs = "[]" and ev = env0 and fromX = 0 and fromY = 0]
  have no: "\<not> fst (Weapon_fire 0 0 0 0 machineGun30 [] env0)"
    by (simp add: Weapon_fire_at_self)
  have yes: "fst (Weapon_fire 0 0 10 0 machineGun30 [] env0)"
    using MachineGun_fire_success [of machineGun30 env0 10 0 0 0 "[]"]
    by (auto simp: machineGun30_simps env0_def)
  from t [of 0 0] no
  have a: "fst (snd (Weapon_fire 0 0 0 0 machineGun30 [] env0)) = machineGun30"
    by blast
  from t [of 10 0] yes
  have b: "weapon.fireRate machineGun30 \<le> shd (clock env0) / 1000 - weapon.lastFireTime machineGun30"
    "weapon.lastFireTime (fst (snd (Weapon_fire 0 0 10 0 machineGun30 [] env0))) =
       shd (stl (clock env0)) / 1000"
    by blast+
  from t [of 10 0] m_Player_new_weapon [of 0 0]
  obtain ts q where c: "m_fire_calls (m_Player_new 0 0) [(1000, 10, 0), (1200, 10, 0), (1500, 10, 0)] = Inr (ts, q)"
    and s: "successively (\<lambda>t1 t2. m_weapon.fireRate (CONFIG_weapons_machineGun 0) \<le> t2 - t1)
              (m_weapon.lastFireTime (CONFIG_weapons_machineGun 0) # ts)"
    by blast
  from c m_fire_calls_example have "ts = [1000, 1500]" by simp
  with s have s': "successively (\<lambda>t1 t2. m_weapon.fireRate (CONFIG_weapons_machineGun 0) \<le> t2 - t1)
              [0, 1000, 1500]"
    by (simp add: CONFIG_weapons_machineGun_def)
  from m_tryFire_early m_Player_new_weapon [of 0 0] m_fire_calls_example s' no a yes b
  show ?thesis by (simp add: env0_def)
qed

end
